theory Spec2Isabelle
  imports Complex_Main "HOL-Library.Sublist"
begin

section \<open>Data model (types.ts)\<close>

datatype CaptureMode = Screenshot | ScreenVideo | AudioOnly | ScreenAndCam

datatype VideoResolution = ResAuto | Res720p | Res1080p | Res1440p | Res4k
datatype VideoFramerate = Fps30 | Fps60
datatype VideoBitratePreset = BitrateLow | BitrateMedium | BitrateHigh | BitrateCustom
datatype VideoContainer = Mp4 | Webm
datatype VideoCodec = H264 | H265 | Vp9 | Av1
datatype AudioBitratePreset = Kbps128 | Kbps192 | Kbps320
datatype AudioCodec = Aac | Opus
datatype ImageFormat = Png | Jpeg

record CaptureSettings =
  mode :: CaptureMode
  resolution :: VideoResolution
  framerate :: VideoFramerate
  videoBitrate :: VideoBitratePreset
  customVideoBitrate :: real
  container :: VideoContainer
  videoCodec :: VideoCodec
  includeMic :: bool
  includeSystemAudio :: bool
  audioBitrate :: AudioBitratePreset
  audioCodec :: AudioCodec
  imageFormat :: ImageFormat
  jpegQuality :: real
  cameraDeviceId :: "string option"

text \<open>The string literal behind each member of the \<open>CaptureMode\<close> union.\<close>

fun mode_string :: "CaptureMode \<Rightarrow> string" where
  "mode_string Screenshot = ''screenshot''"
| "mode_string ScreenVideo = ''screen-video''"
| "mode_string AudioOnly = ''audio-only''"
| "mode_string ScreenAndCam = ''screen-and-cam''"

fun format_string :: "ImageFormat \<Rightarrow> string" where
  "format_string Png = ''png''"
| "format_string Jpeg = ''jpeg''"

datatype FileType = VideoFile | ImageFile | AudioFile

datatype RecorderStatus =
  Idle | Permission | Acquiring | Recording | Paused | Stopped | Error

section \<open>JavaScript string operations used by the recorder\<close>

text \<open>\<open>s.includes(sub)\<close>: \<open>sub\<close> occurs in \<open>s\<close> as a contiguous run.\<close>

fun str_includes :: "string \<Rightarrow> string \<Rightarrow> bool" where
  "str_includes [] sub = (sub = [])"
| "str_includes (c # cs) sub = (prefix sub (c # cs) \<or> str_includes cs sub)"

text \<open>\<open>s.replace(pat, rep)\<close> with a string pattern: only the first occurrence is replaced.\<close>

fun str_replace :: "string \<Rightarrow> string \<Rightarrow> string \<Rightarrow> string" where
  "str_replace [] pat rep = (if pat = [] then rep else [])"
| "str_replace (c # cs) pat rep =
     (if prefix pat (c # cs) then rep @ drop (length pat) (c # cs)
      else c # str_replace cs pat rep)"

text \<open>\<open>s.toLowerCase()\<close> on the ASCII letters.\<close>

definition lower_char :: "char \<Rightarrow> char" where
  "lower_char c =
     (case map_of (zip ''ABCDEFGHIJKLMNOPQRSTUVWXYZ'' ''abcdefghijklmnopqrstuvwxyz'') c of
        None \<Rightarrow> c
      | Some l \<Rightarrow> l)"

definition toLowerCase :: "string \<Rightarrow> string" where
  "toLowerCase s = map lower_char s"

text \<open>Decimal rendering of a number inside a template literal.\<close>

definition digit_char :: "nat \<Rightarrow> char" where
  "digit_char n = ''0123456789'' ! (n mod 10)"

fun nat_string :: "nat \<Rightarrow> string" where
  "nat_string n = (if n < 10 then [digit_char n] else nat_string (n div 10) @ [digit_char n])"

declare nat_string.simps [simp del]

definition int_string :: "int \<Rightarrow> string" where
  "int_string i = (if i < 0 then CHR ''-'' # nat_string (nat (- i)) else nat_string (nat i))"

section \<open>Mime/container negotiation (utils/helpers.ts)\<close>

text \<open>
  The encoder platform: \<open>None\<close> when \<open>MediaRecorder\<close> is undefined, otherwise its
  \<open>isTypeSupported\<close> predicate.
\<close>

type_synonym encoder_platform = "(string \<Rightarrow> bool) option"

definition isSupported :: "encoder_platform \<Rightarrow> string \<Rightarrow> bool" where
  "isSupported plat ty = (case plat of None \<Rightarrow> False | Some f \<Rightarrow> f ty)"

definition audio_candidates :: "string list" where
  "audio_candidates =
     [''audio/mp4; codecs=mp4a.40.2'',
      ''audio/mp4'',
      ''audio/webm; codecs=opus'',
      ''audio/webm'',
      ''audio/ogg; codecs=opus'',
      ''audio/ogg'']"

definition video_candidates :: "VideoContainer \<Rightarrow> string list" where
  \<open>video_candidates c =
     (if c = Mp4
      then [''video/mp4; codecs="avc1.42E01E, mp4a.40.2"'',
            ''video/mp4; codecs="avc1.64001E, mp4a.40.2"'',
            ''video/mp4'',
            ''video/webm; codecs=h264'']
      else [])
     @ [''video/webm; codecs=vp9'',
        ''video/webm; codecs="vp9,opus"'',
        ''video/webm; codecs=vp8'',
        ''video/webm'',
        ''video/mp4'']\<close>

text \<open>\<open>candidates.find(isSupported) || ''\<close>\<close>

definition find_or_empty :: "encoder_platform \<Rightarrow> string list \<Rightarrow> string" where
  "find_or_empty plat cands =
     (case find (isSupported plat) cands of
        None \<Rightarrow> ''''
      | Some c \<Rightarrow> if c = '''' then '''' else c)"

definition getSupportedMimeType :: "encoder_platform \<Rightarrow> CaptureSettings \<Rightarrow> string" where
  "getSupportedMimeType plat settings =
     (if mode settings = AudioOnly
      then find_or_empty plat audio_candidates
      else find_or_empty plat (video_candidates (container settings)))"

text \<open>The mode-specific ordered candidate list of a settings value.\<close>

definition candidates :: "CaptureSettings \<Rightarrow> string list" where
  "candidates settings =
     (if mode settings = AudioOnly then audio_candidates
      else video_candidates (container settings))"

section \<open>Platform objects\<close>

datatype TrackKind = AudioTrack | VideoTrack

record MediaStreamTrack =
  track_id :: nat
  kind :: TrackKind

text \<open>A \<open>MediaStream\<close> is the list of its tracks (\<open>getTracks()\<close>).\<close>

type_synonym MediaStream = "MediaStreamTrack list"

definition getAudioTracks :: "MediaStream \<Rightarrow> MediaStreamTrack list" where
  "getAudioTracks st = filter (\<lambda>t. kind t = AudioTrack) st"

definition getVideoTracks :: "MediaStream \<Rightarrow> MediaStreamTrack list" where
  "getVideoTracks st = filter (\<lambda>t. kind t = VideoTrack) st"

text \<open>A thrown value: its \<open>name\<close> and \<open>message\<close>. Everything the recorder's calls throw
  (\<open>DOMException\<close>, \<open>TypeError\<close>, \<open>Error\<close>) is an instance of \<open>Error\<close>.\<close>

record js_error =
  err_name :: string
  err_message :: string

record Chunk =
  chunk_size :: nat

record Blob =
  blob_parts :: "Chunk list"
  blob_type :: string

datatype RecorderState = Inactive | EncRecording | EncPaused

record MediaRecorder =
  rec_stream :: MediaStream
  mimeType :: string
  rec_state :: RecorderState

text \<open>
  \<open>CapturedFile\<close>. \<open>file_id\<close> and \<open>file_createdAt\<close> hold the instant (milliseconds) that the
  source renders with \<open>toISOString()\<close> and \<open>new Date()\<close>; the object URL is a handle to
  \<open>file_blob\<close> and is not kept apart from it. \<open>file_duration\<close> is in seconds.
\<close>

record CapturedFile =
  file_id :: int
  file_name :: string
  file_blob :: Blob
  file_type :: FileType
  file_createdAt :: int
  file_duration :: "real option"

text \<open>The teardown closures returned by \<open>setupVideoComposition\<close> and \<open>mixAudioTracks\<close>, with
  the streams each one has captured.\<close>

datatype Teardown = VidCleanup MediaStream MediaStream | AudioCleanup "MediaStream list"

text \<open>What the hook does to the outside world, in the order it does it.\<close>

datatype event =
    ReqDisplayMedia bool
  | ReqUserMedia bool bool
  | TrackStopped MediaStreamTrack
  | TeardownInvoked Teardown
  | FileEmitted CapturedFile

fun is_mic_request :: "event \<Rightarrow> bool" where
  "is_mic_request (ReqUserMedia video audio) = audio"
| "is_mic_request e = False"

fun is_display_request :: "event \<Rightarrow> bool" where
  "is_display_request (ReqDisplayMedia audio) = True"
| "is_display_request e = False"

fun emitted_files :: "event list \<Rightarrow> CapturedFile list" where
  "emitted_files [] = []"
| "emitted_files (FileEmitted f # es) = f # emitted_files es"
| "emitted_files (e # es) = emitted_files es"

fun stopped_tracks :: "event list \<Rightarrow> MediaStreamTrack list" where
  "stopped_tracks [] = []"
| "stopped_tracks (TrackStopped t # es) = t # stopped_tracks es"
| "stopped_tracks (e # es) = stopped_tracks es"

fun invoked_teardowns :: "event list \<Rightarrow> Teardown list" where
  "invoked_teardowns [] = []"
| "invoked_teardowns (TeardownInvoked cb # es) = cb # invoked_teardowns es"
| "invoked_teardowns (e # es) = invoked_teardowns es"

section \<open>The recorder hook (hooks/useScreenRecorder)\<close>

text \<open>
  The hook's React state (\<open>status\<close>, \<open>error\<close>, \<open>timer\<close>), its refs, and the part of the
  world it acts on: the tracks whose \<open>onended\<close> handler calls \<open>stopRecording\<close>, the next
  handle \<open>setInterval\<close> will return (handles are positive, so the truthiness test on
  \<open>timerIntervalRef.current\<close> is the null test), and the trace of events.
\<close>

record recorder =
  status :: RecorderStatus
  error :: "string option"
  timer :: int
  mediaRecorderRef :: "MediaRecorder option"
  streamRef :: "MediaStream option"
  recordedChunksRef :: "Chunk list"
  timerIntervalRef :: "nat option"
  captureModeRef :: "CaptureMode option"
  startTimeRef :: int
  activeMimeTypeRef :: string
  cleanupCallbacks :: "Teardown list"
  onended :: "MediaStreamTrack list"
  nextIntervalId :: nat
  events :: "event list"

definition initial :: recorder where
  "initial =
     \<lparr>status = Idle, error = None, timer = 0, mediaRecorderRef = None, streamRef = None,
      recordedChunksRef = [], timerIntervalRef = None, captureModeRef = None,
      startTimeRef = 0, activeMimeTypeRef = '''', cleanupCallbacks = [],
      onended = [], nextIntervalId = 1, events = []\<rparr>"

definition emit :: "event list \<Rightarrow> recorder \<Rightarrow> recorder" where
  "emit es s = s\<lparr>events := events s @ es\<rparr>"

definition cleanup :: "recorder \<Rightarrow> recorder" where
  "cleanup s =
     (let s1 = (case streamRef s of
                  None \<Rightarrow> s
                | Some st \<Rightarrow> (emit (map TrackStopped st) s)\<lparr>streamRef := None\<rparr>);
          s2 = s1\<lparr>mediaRecorderRef := None\<rparr>;
          s3 = s2\<lparr>timerIntervalRef := None\<rparr>;
          s4 = (emit (map TeardownInvoked (cleanupCallbacks s3)) s3)\<lparr>cleanupCallbacks := []\<rparr>
      in s4\<lparr>recordedChunksRef := [], timer := 0\<rparr>)"

text \<open>No session is active: no stream, encoder, interval or teardown is held, no chunk is
  kept and the timer shows zero.\<close>

definition no_session :: "recorder \<Rightarrow> bool" where
  "no_session s =
     (streamRef s = None \<and> mediaRecorderRef s = None \<and> timerIntervalRef s = None \<and>
      cleanupCallbacks s = [] \<and> recordedChunksRef s = [] \<and> timer s = 0)"

definition handleDataAvailable :: "Chunk \<Rightarrow> recorder \<Rightarrow> recorder" where
  "handleDataAvailable data s =
     (if chunk_size data > 0 then s\<lparr>recordedChunksRef := recordedChunksRef s @ [data]\<rparr> else s)"

text \<open>The format string of \<open>handleStop\<close>: the encoder's own \<open>mimeType\<close> (\<open>None\<close> when
  \<open>mediaRecorderRef.current\<close> is null), else the requested one, else the default of the mode;
  a video type is rewritten in audio-only mode.\<close>

definition resolveMimeType :: "string option \<Rightarrow> string \<Rightarrow> CaptureMode option \<Rightarrow> string" where
  "resolveMimeType recorderMime active captureMode =
     (let mimeType0 = (case recorderMime of None \<Rightarrow> '''' | Some m \<Rightarrow> m);
          mimeType1 =
            (if mimeType0 = ''''
             then (if captureMode = Some AudioOnly
                   then (if active = '''' then ''audio/webm'' else active)
                   else (if active = '''' then ''video/webm'' else active))
             else mimeType0)
      in if captureMode = Some AudioOnly \<and> str_includes mimeType1 ''video''
         then str_replace mimeType1 ''video'' ''audio''
         else mimeType1)"

definition fileExtension :: "string \<Rightarrow> FileType \<Rightarrow> string" where
  "fileExtension mt fileType =
     (if str_includes mt ''mp4'' then (if fileType = AudioFile then ''m4a'' else ''mp4'')
      else if str_includes mt ''wav'' then ''wav''
      else if str_includes mt ''ogg'' then ''ogg''
      else if str_includes mt ''mp3'' then ''mp3''
      else if str_includes mt ''x-matroska'' then ''mkv''
      else if str_includes mt ''webm'' then ''webm''
      else ''webm'')"

text \<open>\<open>handleStop\<close>, the encoder's \<open>onstop\<close> handler, run at instant \<open>now\<close>.\<close>

definition handleStop :: "int \<Rightarrow> recorder \<Rightarrow> recorder" where
  "handleStop now s =
     (if recordedChunksRef s = [] then cleanup (s\<lparr>status := Stopped\<rparr>)
      else
        let mt = resolveMimeType (map_option mimeType (mediaRecorderRef s))
                   (activeMimeTypeRef s) (captureModeRef s);
            blob = \<lparr>blob_parts = recordedChunksRef s, blob_type = mt\<rparr>;
            duration = real_of_int (now - startTimeRef s) / 1000;
            fileType = (if captureModeRef s = Some AudioOnly then AudioFile else VideoFile);
            file = \<lparr>file_id = now,
                    file_name = ''recording-'' @ int_string now @ ''.'' @ fileExtension mt fileType,
                    file_blob = blob, file_type = fileType, file_createdAt = now,
                    file_duration = Some duration\<rparr>
        in cleanup ((emit [FileEmitted file] s)\<lparr>status := Stopped\<rparr>))"

definition startTimer :: "int \<Rightarrow> recorder \<Rightarrow> recorder" where
  "startTimer now s =
     s\<lparr>startTimeRef := now, timerIntervalRef := Some (nextIntervalId s),
       nextIntervalId := nextIntervalId s + 1\<rparr>"

text \<open>One firing of the interval callback at instant \<open>now\<close>; a cleared interval never fires.\<close>

definition tick :: "int \<Rightarrow> recorder \<Rightarrow> recorder" where
  "tick now s =
     (case timerIntervalRef s of
        None \<Rightarrow> s
      | Some h \<Rightarrow> s\<lparr>timer := (now - startTimeRef s) div 1000\<rparr>)"

definition stopTimer :: "recorder \<Rightarrow> recorder" where
  "stopTimer s = s\<lparr>timerIntervalRef := None\<rparr>"

subsection \<open>Acquisition\<close>

text \<open>
  What the host platform answers during one \<open>startRecording\<close> call: the outcome of
  \<open>getDisplayMedia\<close>, of the camera and of the microphone \<open>getUserMedia\<close> (a thrown error or
  a stream), the stream \<open>canvas.captureStream\<close> returns, the output track of the mixing
  destination node, the encoder's capability set, and the outcome of constructing and
  starting the \<open>MediaRecorder\<close> (a thrown error, or the \<open>mimeType\<close> the encoder settles on).
\<close>

record platform =
  displayMedia :: "js_error + MediaStream"
  cameraMedia :: "js_error + MediaStream"
  micMedia :: "js_error + MediaStream"
  canvasStream :: MediaStream
  mixedTrack :: MediaStreamTrack
  encoder :: encoder_platform
  recorderStart :: "js_error + string"

text \<open>A step of the \<open>try\<close> block: it throws (left, with the state reached) or goes on.\<close>

type_synonym 'a attempt = "(js_error \<times> recorder) + ('a \<times> recorder)"

definition setupVideoComposition ::
  "platform \<Rightarrow> MediaStream \<Rightarrow> MediaStream \<Rightarrow> MediaStream \<times> Teardown" where
  "setupVideoComposition p screenStream cameraStream =
     (canvasStream p, VidCleanup screenStream cameraStream)"

definition mixAudioTracks :: "platform \<Rightarrow> MediaStream list \<Rightarrow> MediaStreamTrack \<times> Teardown" where
  "mixAudioTracks p streams =
     (mixedTrack p, AudioCleanup (filter (\<lambda>st. getAudioTracks st \<noteq> []) streams))"

text \<open>Step 5 of the screen-and-cam branch (the same lines in its camera and its fallback
  arm): the streams to mix, the mixed track and the registration of its teardown.\<close>

definition mixSessionAudio ::
  "platform \<Rightarrow> MediaStream \<Rightarrow> MediaStream option \<Rightarrow> recorder
     \<Rightarrow> MediaStreamTrack option \<times> recorder" where
  "mixSessionAudio p screenStream micStream s =
     (let audioStreamsToMix =
            (if getAudioTracks screenStream \<noteq> [] then [screenStream] else [])
            @ (case micStream of None \<Rightarrow> [] | Some m \<Rightarrow> [m])
      in if audioStreamsToMix \<noteq> []
         then (let (track, audioCleanup) = mixAudioTracks p audioStreamsToMix
               in (Some track, s\<lparr>cleanupCallbacks := cleanupCallbacks s @ [audioCleanup]\<rparr>))
         else (None, s))"

text \<open>Assigning \<open>onended\<close> on \<open>getVideoTracks()[0]\<close> of a stream without a video track.\<close>

definition undefined_onended :: js_error where
  "undefined_onended =
     \<lparr>err_name = ''TypeError'', err_message = ''Cannot set properties of undefined''\<rparr>"

definition registerOnended :: "MediaStream \<Rightarrow> recorder \<Rightarrow> unit attempt" where
  "registerOnended st s =
     (case getVideoTracks st of
        [] \<Rightarrow> Inl (undefined_onended, s)
      | t # ts \<Rightarrow> Inr ((), s\<lparr>onended := onended s @ [t]\<rparr>))"

definition acquireScreenAndCam ::
  "platform \<Rightarrow> CaptureSettings \<Rightarrow> recorder \<Rightarrow> MediaStream attempt" where
  "acquireScreenAndCam p settings s =
     (let s1 = emit [ReqDisplayMedia (includeSystemAudio settings)] s in
      case displayMedia p of
        Inl e \<Rightarrow> Inl (e, s1)
      | Inr screenStream \<Rightarrow>
         (let s2 = emit [ReqUserMedia True False] s1;
              cameraStream = (case cameraMedia p of Inl e \<Rightarrow> None | Inr c \<Rightarrow> Some c);
              s3 = (if includeMic settings then emit [ReqUserMedia False True] s2 else s2);
              micStream = (if includeMic settings
                           then (case micMedia p of Inl e \<Rightarrow> None | Inr m \<Rightarrow> Some m)
                           else None);
              (finalStream, s6) =
                (case cameraStream of
                   Some cam \<Rightarrow>
                     let (videoStream, vidCleanup) = setupVideoComposition p screenStream cam;
                         s4 = s3\<lparr>cleanupCallbacks := cleanupCallbacks s3 @ [vidCleanup]\<rparr>;
                         (combinedAudioTrack, s5) = mixSessionAudio p screenStream micStream s4
                     in (getVideoTracks videoStream
                           @ (case combinedAudioTrack of None \<Rightarrow> [] | Some t \<Rightarrow> [t]), s5)
                 | None \<Rightarrow>
                     let (combinedAudioTrack, s5) = mixSessionAudio p screenStream micStream s3
                     in (getVideoTracks screenStream
                           @ (case combinedAudioTrack of None \<Rightarrow> [] | Some t \<Rightarrow> [t]), s5))
          in (case registerOnended screenStream s6 of
                Inl err \<Rightarrow> Inl err
              | Inr (u, s7) \<Rightarrow> Inr (finalStream, s7))))"

definition acquireMicrophone ::
  "platform \<Rightarrow> CaptureSettings \<Rightarrow> recorder \<Rightarrow> (MediaStream option) attempt" where
  "acquireMicrophone p settings s =
     (if includeMic settings \<or> mode settings = AudioOnly
      then (let s1 = emit [ReqUserMedia False True] s in
            case micMedia p of
              Inr a \<Rightarrow> Inr (Some a, s1)
            | Inl e \<Rightarrow> if mode settings = AudioOnly then Inl (e, s1) else Inr (None, s1))
      else Inr (None, s))"

definition acquireScreen ::
  "platform \<Rightarrow> CaptureSettings \<Rightarrow> MediaStream option \<Rightarrow> recorder
     \<Rightarrow> (MediaStream option) attempt" where
  "acquireScreen p settings audioStream s =
     (if str_includes (mode_string (mode settings)) ''screen''
      then (let s1 = emit [ReqDisplayMedia (includeSystemAudio settings)] s in
            case displayMedia p of
              Inl e \<Rightarrow>
                Inl (e, (case audioStream of
                           None \<Rightarrow> s1
                         | Some a \<Rightarrow> emit (map TrackStopped a) s1))
            | Inr v \<Rightarrow>
                (case registerOnended v s1 of
                   Inl err \<Rightarrow> Inl err
                 | Inr (u, s2) \<Rightarrow> Inr (Some v, s2)))
      else Inr (None, s))"

definition no_tracks_error :: js_error where
  "no_tracks_error = \<lparr>err_name = ''Error'', err_message = ''No media tracks were acquired.''\<rparr>"

definition acquireStandard ::
  "platform \<Rightarrow> CaptureSettings \<Rightarrow> recorder \<Rightarrow> MediaStream attempt" where
  "acquireStandard p settings s =
     (case acquireMicrophone p settings s of
        Inl err \<Rightarrow> Inl err
      | Inr (audioStream, s1) \<Rightarrow>
          (case acquireScreen p settings audioStream s1 of
             Inl err \<Rightarrow> Inl err
           | Inr (videoStream, s2) \<Rightarrow>
               let tracks = (case videoStream of None \<Rightarrow> [] | Some v \<Rightarrow> v)
                            @ (case audioStream of None \<Rightarrow> [] | Some a \<Rightarrow> a)
               in if tracks = [] then Inl (no_tracks_error, s2) else Inr (tracks, s2)))"

text \<open>The \<open>try\<close> block of \<open>startRecording\<close>.\<close>

definition tryStart ::
  "platform \<Rightarrow> int \<Rightarrow> CaptureSettings \<Rightarrow> recorder \<Rightarrow> (js_error \<times> recorder) + recorder" where
  "tryStart p now settings s =
     (case (if mode settings = ScreenAndCam then acquireScreenAndCam p settings s
            else acquireStandard p settings s) of
        Inl err \<Rightarrow> Inl err
      | Inr (finalStream, s1) \<Rightarrow>
         (let s2 = s1\<lparr>streamRef := Some finalStream\<rparr>;
              s3 = s2\<lparr>activeMimeTypeRef := getSupportedMimeType (encoder p) settings\<rparr>
          in (case recorderStart p of
               Inl e \<Rightarrow> Inl (e, s3)
             | Inr actual \<Rightarrow>
                 let s4 = s3\<lparr>mediaRecorderRef :=
                            Some \<lparr>rec_stream = finalStream, mimeType = actual,
                                  rec_state = EncRecording\<rparr>\<rparr>
                 in Inr ((startTimer now s4)\<lparr>status := Recording\<rparr>))))"

definition isPermissionError :: "js_error \<Rightarrow> bool" where
  "isPermissionError err =
     (let errorMessage = toLowerCase (err_message err);
          errorName = err_name err
      in errorName = ''NotAllowedError'' \<or>
         errorName = ''PermissionDeniedError'' \<or>
         str_includes errorMessage ''permission denied'' \<or>
         str_includes errorMessage ''user denied'' \<or>
         str_includes errorMessage ''declined'' \<or>
         str_includes errorMessage ''cancelled'')"

text \<open>The \<open>catch\<close> block of \<open>startRecording\<close>.\<close>

definition catchStart :: "js_error \<Rightarrow> recorder \<Rightarrow> recorder" where
  "catchStart err s =
     (let s1 = cleanup s in
      if isPermissionError err then s1\<lparr>status := Idle\<rparr>
      else s1\<lparr>error := Some (''Failed to start recording: '' @ err_message err),
               status := Error\<rparr>)"

text \<open>The statements of \<open>startRecording\<close> between its guard and its \<open>try\<close> block.\<close>

definition beginAcquiring :: "CaptureSettings \<Rightarrow> recorder \<Rightarrow> recorder" where
  "beginAcquiring settings s =
     (cleanup s)\<lparr>status := Acquiring, error := None, captureModeRef := Some (mode settings)\<rparr>"

text \<open>
  \<open>startRecording\<close> is a \<open>useCallback\<close> closure with \<open>status\<close> among its dependencies: the
  \<open>status\<close> its guard reads is the one of the render that created the callback, here the
  argument \<open>closureStatus\<close>, not the state the hook has when the call is made. For the
  callback of the current render the two agree.
\<close>

definition startRecording ::
  "platform \<Rightarrow> int \<Rightarrow> RecorderStatus \<Rightarrow> CaptureSettings \<Rightarrow> recorder \<Rightarrow> recorder" where
  "startRecording p now closureStatus settings s =
     (if closureStatus = Recording \<or> closureStatus = Acquiring then s
      else
        case tryStart p now settings (beginAcquiring settings s) of
          Inr s2 \<Rightarrow> s2
        | Inl (err, s2) \<Rightarrow> catchStart err s2)"

subsection \<open>Stop, pause, resume\<close>

text \<open>These three callbacks are taken from the current render: the \<open>status\<close> and \<open>timer\<close>
  they read are the fields of the state they are applied to.\<close>

text \<open>\<open>stopRecording\<close>: \<open>stop()\<close> on a live encoder (which then dispatches \<open>onstop\<close>, that is
  \<open>handleStop\<close>), or the fallback when the encoder is missing or inactive.\<close>

definition stopRecording :: "recorder \<Rightarrow> recorder" where
  "stopRecording s =
     (if (case mediaRecorderRef s of None \<Rightarrow> False | Some r \<Rightarrow> rec_state r \<noteq> Inactive)
      then stopTimer (s\<lparr>mediaRecorderRef :=
                         map_option (\<lambda>r. r\<lparr>rec_state := Inactive\<rparr>) (mediaRecorderRef s)\<rparr>)
      else if status s = Recording \<or> status s = Paused
      then (cleanup s)\<lparr>status := Stopped\<rparr>
      else s)"

definition pauseRecording :: "recorder \<Rightarrow> recorder" where
  "pauseRecording s =
     (if mediaRecorderRef s \<noteq> None \<and> status s = Recording
      then (stopTimer (s\<lparr>mediaRecorderRef :=
                          map_option (\<lambda>r. r\<lparr>rec_state := EncPaused\<rparr>) (mediaRecorderRef s)\<rparr>))
             \<lparr>status := Paused\<rparr>
      else s)"

definition resumeRecording :: "int \<Rightarrow> recorder \<Rightarrow> recorder" where
  "resumeRecording now s =
     (if mediaRecorderRef s \<noteq> None \<and> status s = Paused
      then (let s1 = s\<lparr>mediaRecorderRef :=
                        map_option (\<lambda>r. r\<lparr>rec_state := EncRecording\<rparr>) (mediaRecorderRef s)\<rparr>;
                s2 = s1\<lparr>startTimeRef := now - timer s1 * 1000\<rparr>
            in (startTimer now s2)\<lparr>status := Recording\<rparr>)
      else s)"

subsection \<open>Screenshot\<close>

text \<open>The arguments \<open>takeScreenshot\<close> reads from its \<open>Partial<CaptureSettings>\<close>.\<close>

record PartialSettings =
  opt_imageFormat :: "ImageFormat option"
  opt_jpegQuality :: "real option"

text \<open>What the platform answers during one \<open>takeScreenshot\<close> call: the outcome of
  \<open>getDisplayMedia\<close>, whether the canvas gives a 2d context, and \<open>canvas.toBlob\<close>.\<close>

record shot_platform =
  shotMedia :: "js_error + MediaStream"
  canvasContext :: bool
  toBlob :: "string \<Rightarrow> real \<Rightarrow> Blob option"

definition catchShot :: "MediaStream option \<Rightarrow> js_error \<Rightarrow> recorder \<Rightarrow> recorder" where
  "catchShot stream err s =
     (let s1 = (case stream of None \<Rightarrow> s | Some st \<Rightarrow> emit (map TrackStopped st) s);
          errorMessage = toLowerCase (err_message err);
          errorName = err_name err
      in if errorName = ''NotAllowedError'' \<or> errorName = ''PermissionDeniedError'' \<or>
            str_includes errorMessage ''permission denied''
         then s1
         else s1\<lparr>error := Some (''Screenshot failed: '' @ err_message err)\<rparr>)"

definition takeScreenshot ::
  "shot_platform \<Rightarrow> int \<Rightarrow> PartialSettings \<Rightarrow> recorder \<Rightarrow> recorder" where
  "takeScreenshot p now settings s =
     (let s1 = emit [ReqDisplayMedia False] s in
      case shotMedia p of
        Inl e \<Rightarrow> catchShot None e s1
      | Inr stream \<Rightarrow>
         (if \<not> canvasContext p
          then catchShot (Some stream)
                 \<lparr>err_name = ''Error'', err_message = ''Could not get canvas context''\<rparr> s1
          else
           (let s2 = emit (map TrackStopped stream) s1;
                mt = (if opt_imageFormat settings = Some Jpeg then ''image/jpeg''
                      else ''image/png'');
                quality = (case opt_jpegQuality settings of None \<Rightarrow> 9 / 10 | Some q \<Rightarrow> q)
            in (case toBlob p mt quality of
                 None \<Rightarrow>
                   catchShot None
                     \<lparr>err_name = ''Error'',
                      err_message = ''Failed to create blob from canvas.''\<rparr> s2
               | Some blob \<Rightarrow>
                   emit [FileEmitted
                           \<lparr>file_id = now,
                            file_name = ''screenshot-'' @ int_string now @ ''.''
                              @ (case opt_imageFormat settings of
                                   None \<Rightarrow> ''png''
                                 | Some f \<Rightarrow> format_string f),
                            file_blob = blob, file_type = ImageFile, file_createdAt = now,
                            file_duration = None\<rparr>] s2))))"

section \<open>Concrete inputs\<close>

text \<open>The default settings of the capture controls.\<close>

definition defaultSettings :: CaptureSettings where
  "defaultSettings =
     \<lparr>mode = ScreenVideo, resolution = Res1080p, framerate = Fps30,
      videoBitrate = BitrateMedium, customVideoBitrate = 5, container = Mp4,
      videoCodec = H264, includeMic = True, includeSystemAudio = True,
      audioBitrate = Kbps192, audioCodec = Aac, imageFormat = Png,
      jpegQuality = 9 / 10, cameraDeviceId = None\<rparr>"

definition screenTrack :: MediaStreamTrack where
  "screenTrack = \<lparr>track_id = 1, kind = VideoTrack\<rparr>"

definition systemAudioTrack :: MediaStreamTrack where
  "systemAudioTrack = \<lparr>track_id = 2, kind = AudioTrack\<rparr>"

definition cameraTrack :: MediaStreamTrack where
  "cameraTrack = \<lparr>track_id = 3, kind = VideoTrack\<rparr>"

definition micTrack :: MediaStreamTrack where
  "micTrack = \<lparr>track_id = 4, kind = AudioTrack\<rparr>"

definition canvasTrack :: MediaStreamTrack where
  "canvasTrack = \<lparr>track_id = 5, kind = VideoTrack\<rparr>"

definition mixTrack :: MediaStreamTrack where
  "mixTrack = \<lparr>track_id = 6, kind = AudioTrack\<rparr>"

text \<open>A platform that grants every request and encodes WebM only.\<close>

definition webmOnly :: encoder_platform where
  "webmOnly = Some (\<lambda>ty. ty = ''video/webm'' \<or> ty = ''audio/webm'')"

definition grantAll :: platform where
  "grantAll =
     \<lparr>displayMedia = Inr [screenTrack, systemAudioTrack],
      cameraMedia = Inr [cameraTrack],
      micMedia = Inr [micTrack],
      canvasStream = [canvasTrack],
      mixedTrack = mixTrack,
      encoder = webmOnly,
      recorderStart = Inr ''video/webm''\<rparr>"

definition denied :: js_error where
  "denied = \<lparr>err_name = ''NotAllowedError'', err_message = ''Permission denied''\<rparr>"

definition notFound :: js_error where
  "notFound = \<lparr>err_name = ''NotFoundError'', err_message = ''Requested device not found''\<rparr>"

definition notSupported :: js_error where
  "notSupported = \<lparr>err_name = ''NotSupportedError'', err_message = ''mimeType is not supported''\<rparr>"

definition oneChunk :: Chunk where
  "oneChunk = \<lparr>chunk_size = 10\<rparr>"

definition shotGranted :: shot_platform where
  "shotGranted =
     \<lparr>shotMedia = Inr [screenTrack], canvasContext = True,
      toBlob = (\<lambda>ty q. Some \<lparr>blob_parts = [\<lparr>chunk_size = 100\<rparr>], blob_type = ty\<rparr>)\<rparr>"

section \<open>The negotiator\<close>

lemma find_first:
  "find P xs = Some x \<Longrightarrow> \<exists>pre post. xs = pre @ x # post \<and> P x \<and> (\<forall>c\<in>set pre. \<not> P c)"
proof (induction xs)
  case Nil
  then show ?case by simp
next
  case (Cons a xs)
  show ?case
  proof (cases "P a")
    case True
    with Cons.prems have "a = x" by simp
    with True have "a # xs = [] @ x # xs \<and> P x \<and> (\<forall>c\<in>set []. \<not> P c)" by simp
    then show ?thesis by blast
  next
    case False
    with Cons.prems have "find P xs = Some x" by simp
    from Cons.IH[OF this] obtain pre post where
      "xs = pre @ x # post" "P x" "\<forall>c\<in>set pre. \<not> P c" by blast
    with False have "a # xs = (a # pre) @ x # post \<and> P x \<and> (\<forall>c\<in>set (a # pre). \<not> P c)"
      by simp
    then show ?thesis by blast
  qed
qed

lemma empty_not_candidate: "'''' \<notin> set (candidates st)"
  by (simp add: candidates_def audio_candidates_def video_candidates_def)

lemma getSupportedMimeType_find:
  "getSupportedMimeType plat st =
     (case find (isSupported plat) (candidates st) of None \<Rightarrow> '''' | Some c \<Rightarrow> c)"
proof (cases "find (isSupported plat) (candidates st)")
  case None
  then show ?thesis
    by (auto simp: getSupportedMimeType_def candidates_def find_or_empty_def)
next
  case (Some c)
  then have "c \<in> set (candidates st)"
    by (auto simp: find_Some_iff)
  with empty_not_candidate have "c \<noteq> ''''" by metis
  with Some show ?thesis
    by (auto simp: getSupportedMimeType_def candidates_def find_or_empty_def)
qed

text \<open>
  Claim C5. For every settings value, \<open>getSupportedMimeType\<close> returns the first element of
  the mode-specific candidate list that the platform reports as supported, or the empty
  string when no candidate is supported, in particular when \<open>MediaRecorder\<close> is absent; the
  result is never outside the candidate list; and the result is determined by the mode, the
  container and the platform's answers on the candidates.
\<close>

theorem getSupportedMimeType_first_supported:
  "((getSupportedMimeType plat st = '''' \<and> (\<forall>c\<in>set (candidates st). \<not> isSupported plat c))
    \<or> (\<exists>pre post. candidates st = pre @ getSupportedMimeType plat st # post
          \<and> isSupported plat (getSupportedMimeType plat st)
          \<and> (\<forall>c\<in>set pre. \<not> isSupported plat c)))
   \<and> getSupportedMimeType plat st \<in> set (candidates st) \<union> {''''}
   \<and> getSupportedMimeType None st = ''''
   \<and> (mode st = mode st' \<and> container st = container st'
        \<and> (\<forall>c\<in>set (candidates st). isSupported plat c = isSupported plat' c)
      \<longrightarrow> getSupportedMimeType plat st = getSupportedMimeType plat' st')"
proof -
  have first: "(getSupportedMimeType plat st = '''' \<and> (\<forall>c\<in>set (candidates st). \<not> isSupported plat c))
    \<or> (\<exists>pre post. candidates st = pre @ getSupportedMimeType plat st # post
          \<and> isSupported plat (getSupportedMimeType plat st)
          \<and> (\<forall>c\<in>set pre. \<not> isSupported plat c))"
  proof (cases "find (isSupported plat) (candidates st)")
    case None
    then have "getSupportedMimeType plat st = ''''"
      by (simp add: getSupportedMimeType_find)
    moreover from None have "\<forall>c\<in>set (candidates st). \<not> isSupported plat c"
      by (simp add: find_None_iff)
    ultimately show ?thesis by blast
  next
    case (Some c)
    then have "getSupportedMimeType plat st = c"
      by (simp add: getSupportedMimeType_find)
    with find_first[OF Some] show ?thesis by blast
  qed
  then have member: "getSupportedMimeType plat st \<in> set (candidates st) \<union> {''''}"
    by auto
  have "find (isSupported None) (candidates st) = None"
    by (simp add: find_None_iff isSupported_def)
  then have absent: "getSupportedMimeType None st = ''''"
    by (simp add: getSupportedMimeType_find)
  have det: "mode st = mode st' \<and> container st = container st'
        \<and> (\<forall>c\<in>set (candidates st). isSupported plat c = isSupported plat' c)
      \<longrightarrow> getSupportedMimeType plat st = getSupportedMimeType plat' st'"
  proof
    assume h: "mode st = mode st' \<and> container st = container st'
        \<and> (\<forall>c\<in>set (candidates st). isSupported plat c = isSupported plat' c)"
    then have c: "candidates st' = candidates st" by (simp add: candidates_def)
    from h have "find (isSupported plat) (candidates st) = find (isSupported plat') (candidates st)"
      by (intro find_cong) auto
    with c show "getSupportedMimeType plat st = getSupportedMimeType plat' st'"
      by (simp add: getSupportedMimeType_find)
  qed
  from first member absent det show ?thesis by blast
qed

theorem getSupportedMimeType_first_supported_witness:
  "getSupportedMimeType webmOnly defaultSettings = ''video/webm''
   \<and> getSupportedMimeType None defaultSettings = ''''
   \<and> getSupportedMimeType webmOnly (defaultSettings\<lparr>mode := AudioOnly\<rparr>) = ''audio/webm''"
  using getSupportedMimeType_first_supported [of webmOnly defaultSettings defaultSettings webmOnly]
    getSupportedMimeType_first_supported [of webmOnly "defaultSettings\<lparr>mode := AudioOnly\<rparr>" defaultSettings webmOnly]
  by (simp add: getSupportedMimeType_def find_or_empty_def isSupported_def webmOnly_def defaultSettings_def
        video_candidates_def audio_candidates_def)

section \<open>Starting while a session is active\<close>



section \<open>Traces and cleanup\<close>

lemma emitted_files_append [simp]:
  "emitted_files (xs @ ys) = emitted_files xs @ emitted_files ys"
  by (induction xs rule: emitted_files.induct) simp_all

lemma stopped_tracks_append [simp]:
  "stopped_tracks (xs @ ys) = stopped_tracks xs @ stopped_tracks ys"
  by (induction xs rule: stopped_tracks.induct) simp_all

lemma invoked_teardowns_append [simp]:
  "invoked_teardowns (xs @ ys) = invoked_teardowns xs @ invoked_teardowns ys"
  by (induction xs rule: invoked_teardowns.induct) simp_all

lemma emitted_files_stops [simp]: "emitted_files (map TrackStopped ts) = []"
  by (induction ts) simp_all

lemma emitted_files_teardowns [simp]: "emitted_files (map TeardownInvoked cbs) = []"
  by (induction cbs) simp_all

lemma invoked_teardowns_stops [simp]: "invoked_teardowns (map TrackStopped ts) = []"
  by (induction ts) simp_all

lemma invoked_teardowns_map [simp]: "invoked_teardowns (map TeardownInvoked cbs) = cbs"
  by (induction cbs) simp_all

lemma stopped_tracks_map [simp]: "stopped_tracks (map TrackStopped ts) = ts"
  by (induction ts) simp_all

lemma stopped_tracks_teardowns [simp]: "stopped_tracks (map TeardownInvoked cbs) = []"
  by (induction cbs) simp_all

lemma mic_requests_stops [simp]: "filter is_mic_request (map TrackStopped ts) = []"
  by (induction ts) simp_all

lemma mic_requests_teardowns [simp]: "filter is_mic_request (map TeardownInvoked cbs) = []"
  by (induction cbs) simp_all

lemma display_requests_stops [simp]: "filter is_display_request (map TrackStopped ts) = []"
  by (induction ts) simp_all

lemma display_requests_teardowns [simp]: "filter is_display_request (map TeardownInvoked cbs) = []"
  by (induction cbs) simp_all

lemma events_cleanup:
  "events (cleanup s) =
     events s @ map TrackStopped (case streamRef s of None \<Rightarrow> [] | Some st \<Rightarrow> st)
       @ map TeardownInvoked (cleanupCallbacks s)"
  by (simp add: cleanup_def emit_def Let_def split: option.splits)

lemma cleanup_fields [simp]:
  "streamRef (cleanup s) = None" "mediaRecorderRef (cleanup s) = None"
  "timerIntervalRef (cleanup s) = None" "cleanupCallbacks (cleanup s) = []"
  "recordedChunksRef (cleanup s) = []" "timer (cleanup s) = 0"
  "status (cleanup s) = status s" "error (cleanup s) = error s"
  "captureModeRef (cleanup s) = captureModeRef s" "startTimeRef (cleanup s) = startTimeRef s"
  "activeMimeTypeRef (cleanup s) = activeMimeTypeRef s" "onended (cleanup s) = onended s"
  "nextIntervalId (cleanup s) = nextIntervalId s"
  by (simp_all add: cleanup_def emit_def Let_def split: option.splits)

text \<open>
  Claim C8. \<open>cleanup\<close> is idempotent: a second call in a row changes nothing, a call with no
  session active changes nothing, and across two calls every registered teardown callback
  is invoked once and no more. The model of \<open>cleanup\<close> is total: no call raises.
\<close>

theorem cleanup_idempotent:
  "cleanup (cleanup s) = cleanup s
   \<and> no_session (cleanup s)
   \<and> (no_session s \<longrightarrow> cleanup s = s)
   \<and> invoked_teardowns (events (cleanup (cleanup s)))
       = invoked_teardowns (events s) @ cleanupCallbacks s"
proof -
  have twice: "cleanup (cleanup s) = cleanup s"
    by (simp add: cleanup_def emit_def Let_def split: option.splits)
  have rest: "no_session (cleanup s)"
    by (simp add: no_session_def)
  have idle: "no_session s \<longrightarrow> cleanup s = s"
    by (simp add: no_session_def cleanup_def emit_def Let_def)
  have "invoked_teardowns (events (cleanup s)) = invoked_teardowns (events s) @ cleanupCallbacks s"
    by (simp add: events_cleanup)
  with twice rest idle show ?thesis by simp
qed

theorem cleanup_idempotent_witness:
  "cleanup initial = initial
   \<and> cleanup (cleanup (initial\<lparr>streamRef := Some [screenTrack],
                cleanupCallbacks := [AudioCleanup [[micTrack]]]\<rparr>))
     = initial\<lparr>events := [TrackStopped screenTrack, TeardownInvoked (AudioCleanup [[micTrack]])]\<rparr>"
  using cleanup_idempotent [of initial]
    cleanup_idempotent [of "initial\<lparr>streamRef := Some [screenTrack],
                cleanupCallbacks := [AudioCleanup [[micTrack]]]\<rparr>"]
  by (simp add: no_session_def initial_def cleanup_def emit_def)

text \<open>
  Claim C10. When \<open>takeScreenshot\<close> succeeds (the screen stream is granted, the canvas has a
  context, \<open>toBlob\<close> yields a blob), it requests the display once, stops every track of the
  stream, and only then calls the completion callback, once; the file is an image, has no
  duration, and its name ends in \<open>.jpeg\<close> when jpeg is requested and in \<open>.png\<close> otherwise.
\<close>

theorem takeScreenshot_success:
  assumes "shotMedia p = Inr stream" and "canvasContext p"
    and "toBlob p (if opt_imageFormat settings = Some Jpeg then ''image/jpeg'' else ''image/png'')
           (case opt_jpegQuality settings of None \<Rightarrow> 9 / 10 | Some q \<Rightarrow> q) = Some blob"
  shows "\<exists>f. events (takeScreenshot p now settings s)
               = events s @ [ReqDisplayMedia False] @ map TrackStopped stream @ [FileEmitted f]
             \<and> emitted_files (events (takeScreenshot p now settings s))
               = emitted_files (events s) @ [f]
             \<and> file_type f = ImageFile \<and> file_duration f = None \<and> file_blob f = blob
             \<and> (opt_imageFormat settings = Some Jpeg \<longrightarrow> suffix ''.jpeg'' (file_name f))
             \<and> (opt_imageFormat settings \<noteq> Some Jpeg \<longrightarrow> suffix ''.png'' (file_name f))"
proof -
  define ext where "ext = (case opt_imageFormat settings of None \<Rightarrow> ''png'' | Some f \<Rightarrow> format_string f)"
  define f where "f = \<lparr>file_id = now, file_name = ''screenshot-'' @ int_string now @ ''.'' @ ext,
      file_blob = blob, file_type = ImageFile, file_createdAt = now, file_duration = None\<rparr>"
  have ev: "events (takeScreenshot p now settings s)
               = events s @ [ReqDisplayMedia False] @ map TrackStopped stream @ [FileEmitted f]"
    using assms by (simp add: takeScreenshot_def emit_def Let_def f_def ext_def)
  have name: "file_name f = (''screenshot-'' @ int_string now) @ ''.'' @ ext"
    by (simp add: f_def)
  have jpeg: "opt_imageFormat settings = Some Jpeg \<longrightarrow> suffix ''.jpeg'' (file_name f)"
    unfolding name by (auto simp: ext_def intro!: suffixI)
  have png: "opt_imageFormat settings \<noteq> Some Jpeg \<longrightarrow> suffix ''.png'' (file_name f)"
  proof
    assume "opt_imageFormat settings \<noteq> Some Jpeg"
    then have "ext = ''png''"
    proof (cases "opt_imageFormat settings")
      case None
      then show ?thesis by (simp add: ext_def)
    next
      case (Some a)
      with \<open>opt_imageFormat settings \<noteq> Some Jpeg\<close> have "a = Png" by (cases a) simp_all
      with Some show ?thesis by (simp add: ext_def)
    qed
    then show "suffix ''.png'' (file_name f)"
      unfolding name by (auto intro!: suffixI)
  qed
  have "emitted_files (events (takeScreenshot p now settings s)) = emitted_files (events s) @ [f]"
    by (simp add: ev)
  with ev jpeg png show ?thesis
    by (intro exI[of _ f]) (simp add: f_def)
qed


theorem takeScreenshot_success_witness:
  "events (takeScreenshot shotGranted 1234
             \<lparr>opt_imageFormat = Some Jpeg, opt_jpegQuality = Some (1 / 2)\<rparr> initial)
     = [ReqDisplayMedia False, TrackStopped screenTrack,
        FileEmitted \<lparr>file_id = 1234, file_name = ''screenshot-1234.jpeg'',
          file_blob = \<lparr>blob_parts = [\<lparr>chunk_size = 100\<rparr>], blob_type = ''image/jpeg''\<rparr>,
          file_type = ImageFile, file_createdAt = 1234, file_duration = None\<rparr>]
   \<and> suffix ''.jpeg'' ''screenshot-1234.jpeg''"
proof -
  have m: "shotMedia shotGranted = Inr [screenTrack]" by (simp add: shotGranted_def)
  have c: "canvasContext shotGranted" by (simp add: shotGranted_def)
  have b: "toBlob shotGranted
             (if opt_imageFormat \<lparr>opt_imageFormat = Some Jpeg, opt_jpegQuality = Some (1 / 2)\<rparr> = Some Jpeg
              then ''image/jpeg'' else ''image/png'')
             (case opt_jpegQuality \<lparr>opt_imageFormat = Some Jpeg, opt_jpegQuality = Some (1 / 2)\<rparr> of
                None \<Rightarrow> 9 / 10 | Some q \<Rightarrow> q)
           = Some \<lparr>blob_parts = [\<lparr>chunk_size = 100\<rparr>], blob_type = ''image/jpeg''\<rparr>"
    by (simp add: shotGranted_def)
  have n: "int_string 1234 = ''1234''"
    by (simp add: int_string_def nat_string.simps digit_char_def)
  from takeScreenshot_success [OF m c b, of 1234 initial]
  obtain f where
    ev: "events (takeScreenshot shotGranted 1234
             \<lparr>opt_imageFormat = Some Jpeg, opt_jpegQuality = Some (1 / 2)\<rparr> initial)
          = events initial @ [ReqDisplayMedia False] @ map TrackStopped [screenTrack] @ [FileEmitted f]"
    and sf: "suffix ''.jpeg'' (file_name f)"
    by auto
  have "events (takeScreenshot shotGranted 1234
             \<lparr>opt_imageFormat = Some Jpeg, opt_jpegQuality = Some (1 / 2)\<rparr> initial)
     = [ReqDisplayMedia False, TrackStopped screenTrack,
        FileEmitted \<lparr>file_id = 1234, file_name = ''screenshot-1234.jpeg'',
          file_blob = \<lparr>blob_parts = [\<lparr>chunk_size = 100\<rparr>], blob_type = ''image/jpeg''\<rparr>,
          file_type = ImageFile, file_createdAt = 1234, file_duration = None\<rparr>]"
    by (simp add: takeScreenshot_def shotGranted_def emit_def initial_def n)
  with ev sf show ?thesis by (simp add: initial_def)
qed

section \<open>Finalization\<close>

lemma events_handleStop_files:
  "recordedChunksRef s \<noteq> [] \<Longrightarrow>
   emitted_files (events (handleStop now s)) =
     emitted_files (events s) @
       [\<lparr>file_id = now,
         file_name = ''recording-'' @ int_string now @ ''.'' @
            fileExtension (resolveMimeType (map_option mimeType (mediaRecorderRef s))
                             (activeMimeTypeRef s) (captureModeRef s))
              (if captureModeRef s = Some AudioOnly then AudioFile else VideoFile),
         file_blob = \<lparr>blob_parts = recordedChunksRef s,
                      blob_type = resolveMimeType (map_option mimeType (mediaRecorderRef s))
                             (activeMimeTypeRef s) (captureModeRef s)\<rparr>,
         file_type = (if captureModeRef s = Some AudioOnly then AudioFile else VideoFile),
         file_createdAt = now,
         file_duration = Some (real_of_int (now - startTimeRef s) / 1000)\<rparr>]"
  by (simp add: handleStop_def Let_def events_cleanup emit_def)

lemma resolveMimeType_actual:
  "m \<noteq> '''' \<Longrightarrow> resolveMimeType (Some m) r cm = resolveMimeType (Some m) r' cm"
  by (simp add: resolveMimeType_def)

text \<open>
  Claim C3, as the code has it. When \<open>handleStop\<close> finalizes a recording with at least one
  chunk, it emits one file whose blob type is the resolved format: the \<open>mimeType\<close> of the
  encoder that \<open>mediaRecorderRef\<close> still holds, when non-empty; else (also when the reference
  has been dropped by \<open>cleanup\<close> before \<open>onstop\<close>) the requested format; else \<open>audio/webm\<close> in
  audio-only mode and \<open>video/webm\<close> otherwise; with \<open>video\<close> rewritten to \<open>audio\<close> in
  audio-only mode. The extension in the file name follows the substrings of the resolved
  format (mp4 gives m4a for audio and mp4 otherwise, then wav, ogg, mp3, x-matroska as mkv,
  and webm when none matches). While the encoder is held and reports a format, the
  requested one has no influence on the file.
\<close>

theorem handleStop_format:
  assumes chunks: "recordedChunksRef s \<noteq> []"
    and actual: "actual = (case mediaRecorderRef s of None \<Rightarrow> '''' | Some r \<Rightarrow> mimeType r)"
    and base: "base = (if actual \<noteq> '''' then actual
                       else if activeMimeTypeRef s \<noteq> '''' then activeMimeTypeRef s
                       else if captureModeRef s = Some AudioOnly then ''audio/webm''
                       else ''video/webm'')"
    and fmt: "fmt = (if captureModeRef s = Some AudioOnly \<and> str_includes base ''video''
                     then str_replace base ''video'' ''audio'' else base)"
  shows "\<exists>f ext.
           emitted_files (events (handleStop now s)) = emitted_files (events s) @ [f]
         \<and> blob_type (file_blob f) = fmt
         \<and> file_name f = ''recording-'' @ int_string now @ ''.'' @ ext
         \<and> (str_includes fmt ''mp4'' \<longrightarrow>
              ext = (if captureModeRef s = Some AudioOnly then ''m4a'' else ''mp4''))
         \<and> (\<not> str_includes fmt ''mp4'' \<and> str_includes fmt ''wav'' \<longrightarrow> ext = ''wav'')
         \<and> (\<not> str_includes fmt ''mp4'' \<and> \<not> str_includes fmt ''wav''
              \<and> str_includes fmt ''ogg'' \<longrightarrow> ext = ''ogg'')
         \<and> (\<not> str_includes fmt ''mp4'' \<and> \<not> str_includes fmt ''wav''
              \<and> \<not> str_includes fmt ''ogg'' \<and> str_includes fmt ''mp3'' \<longrightarrow> ext = ''mp3'')
         \<and> (\<not> str_includes fmt ''mp4'' \<and> \<not> str_includes fmt ''wav''
              \<and> \<not> str_includes fmt ''ogg'' \<and> \<not> str_includes fmt ''mp3''
              \<and> str_includes fmt ''x-matroska'' \<longrightarrow> ext = ''mkv'')
         \<and> (\<not> str_includes fmt ''mp4'' \<and> \<not> str_includes fmt ''wav''
              \<and> \<not> str_includes fmt ''ogg'' \<and> \<not> str_includes fmt ''mp3''
              \<and> \<not> str_includes fmt ''x-matroska'' \<longrightarrow> ext = ''webm'')
         \<and> (actual \<noteq> '''' \<longrightarrow>
              emitted_files (events (handleStop now (s\<lparr>activeMimeTypeRef := requested\<rparr>)))
                = emitted_files (events s) @ [f])"
proof -
  define ft where "ft = (if captureModeRef s = Some AudioOnly then AudioFile else VideoFile)"
  have res: "resolveMimeType (map_option mimeType (mediaRecorderRef s))
               (activeMimeTypeRef s) (captureModeRef s) = fmt"
    unfolding fmt base actual
    by (cases "mediaRecorderRef s") (simp_all add: resolveMimeType_def Let_def)
  define ext where "ext = fileExtension fmt ft"
  define f where "f = \<lparr>file_id = now,
         file_name = ''recording-'' @ int_string now @ ''.'' @ ext,
         file_blob = \<lparr>blob_parts = recordedChunksRef s, blob_type = fmt\<rparr>,
         file_type = ft, file_createdAt = now,
         file_duration = Some (real_of_int (now - startTimeRef s) / 1000)\<rparr>"
  have files: "emitted_files (events (handleStop now s)) = emitted_files (events s) @ [f]"
    using events_handleStop_files [OF chunks, of now] by (simp add: res f_def ext_def ft_def)
  have indep: "actual \<noteq> '''' \<longrightarrow>
              emitted_files (events (handleStop now (s\<lparr>activeMimeTypeRef := requested\<rparr>)))
                = emitted_files (events s) @ [f]"
  proof
    assume ne: "actual \<noteq> ''''"
    then obtain r where r: "mediaRecorderRef s = Some r" and m: "mimeType r \<noteq> ''''"
      unfolding actual by (cases "mediaRecorderRef s") auto
    have "resolveMimeType (map_option mimeType (mediaRecorderRef s)) requested (captureModeRef s) = fmt"
      using res resolveMimeType_actual [OF m, of requested "captureModeRef s" "activeMimeTypeRef s"]
      by (simp add: r)
    moreover have "recordedChunksRef (s\<lparr>activeMimeTypeRef := requested\<rparr>) \<noteq> []"
      using chunks by simp
    ultimately show "emitted_files (events (handleStop now (s\<lparr>activeMimeTypeRef := requested\<rparr>)))
                = emitted_files (events s) @ [f]"
      using events_handleStop_files [of "s\<lparr>activeMimeTypeRef := requested\<rparr>" now]
      by (simp add: f_def ext_def ft_def)
  qed
  have e1: "str_includes fmt ''mp4'' \<longrightarrow>
              ext = (if captureModeRef s = Some AudioOnly then ''m4a'' else ''mp4'')"
    by (simp add: ext_def fileExtension_def ft_def)
  have e2: "\<not> str_includes fmt ''mp4'' \<and> str_includes fmt ''wav'' \<longrightarrow> ext = ''wav''"
    by (simp add: ext_def fileExtension_def)
  have e3: "\<not> str_includes fmt ''mp4'' \<and> \<not> str_includes fmt ''wav''
              \<and> str_includes fmt ''ogg'' \<longrightarrow> ext = ''ogg''"
    by (simp add: ext_def fileExtension_def)
  have e4: "\<not> str_includes fmt ''mp4'' \<and> \<not> str_includes fmt ''wav''
              \<and> \<not> str_includes fmt ''ogg'' \<and> str_includes fmt ''mp3'' \<longrightarrow> ext = ''mp3''"
    by (simp add: ext_def fileExtension_def)
  have e5: "\<not> str_includes fmt ''mp4'' \<and> \<not> str_includes fmt ''wav''
              \<and> \<not> str_includes fmt ''ogg'' \<and> \<not> str_includes fmt ''mp3''
              \<and> str_includes fmt ''x-matroska'' \<longrightarrow> ext = ''mkv''"
    by (simp add: ext_def fileExtension_def)
  have e6: "\<not> str_includes fmt ''mp4'' \<and> \<not> str_includes fmt ''wav''
              \<and> \<not> str_includes fmt ''ogg'' \<and> \<not> str_includes fmt ''mp3''
              \<and> \<not> str_includes fmt ''x-matroska'' \<longrightarrow> ext = ''webm''"
    by (simp add: ext_def fileExtension_def)
  have b: "blob_type (file_blob f) = fmt" by (simp add: f_def)
  have n: "file_name f = ''recording-'' @ int_string now @ ''.'' @ ext" by (simp add: f_def)
  from files b n e1 e2 e3 e4 e5 e6 indep show ?thesis by blast
qed

section \<open>What acquisition leaves unchanged\<close>

lemma emitted_files_emit_requests [simp]:
  "emitted_files (events (emit [ReqDisplayMedia a] s)) = emitted_files (events s)"
  "emitted_files (events (emit [ReqUserMedia v a] s)) = emitted_files (events s)"
  "emitted_files (events (emit (map TrackStopped ts) s)) = emitted_files (events s)"
  by (simp_all add: emit_def)

lemma invoked_teardowns_emit_requests [simp]:
  "invoked_teardowns (events (emit [ReqDisplayMedia a] s)) = invoked_teardowns (events s)"
  "invoked_teardowns (events (emit [ReqUserMedia v a] s)) = invoked_teardowns (events s)"
  "invoked_teardowns (events (emit (map TrackStopped ts) s)) = invoked_teardowns (events s)"
  by (simp_all add: emit_def)

lemma error_emit [simp]: "error (emit es s) = error s"
  by (simp add: emit_def)

lemma registerOnended_frame:
  "registerOnended st s = Inl (e, s') \<Longrightarrow> events s' = events s \<and> error s' = error s"
  "registerOnended st s = Inr (u, s') \<Longrightarrow> events s' = events s \<and> error s' = error s"
  by (auto simp: registerOnended_def split: list.splits)

lemma mixSessionAudio_frame:
  "mixSessionAudio p sc mic s = (t, s') \<Longrightarrow> events s' = events s \<and> error s' = error s"
  by (auto simp: mixSessionAudio_def mixAudioTracks_def Let_def split: if_splits)

lemma acquireScreenAndCam_events:
  assumes "acquireScreenAndCam p settings s = r"
    and "r = Inl (e, s') \<or> r = Inr (x, s')"
  shows "events s' = events s @ [ReqDisplayMedia (includeSystemAudio settings)]
           @ (case displayMedia p of Inl e \<Rightarrow> [] | Inr sc \<Rightarrow>
                ReqUserMedia True False # (if includeMic settings then [ReqUserMedia False True] else []))
         \<and> error s' = error s"
  using assms
  by (auto simp: acquireScreenAndCam_def Let_def emit_def setupVideoComposition_def
        dest!: registerOnended_frame mixSessionAudio_frame
        split: sum.splits option.splits prod.splits if_splits)

lemma screen_modes: "m \<noteq> AudioOnly \<Longrightarrow> str_includes (mode_string m) ''screen''"
  by (cases m) simp_all

lemma audio_only_no_screen: "\<not> str_includes (mode_string AudioOnly) ''screen''"
  by simp

lemma acquireMicrophone_files:
  assumes "acquireMicrophone p settings s = r" and "r = Inl (e, s') \<or> r = Inr (x, s')"
  shows "emitted_files (events s') = emitted_files (events s)
       \<and> invoked_teardowns (events s') = invoked_teardowns (events s)
       \<and> error s' = error s"
  using assms
  by (auto simp: acquireMicrophone_def Let_def split: sum.splits if_splits)

lemma acquireScreen_files:
  assumes "acquireScreen p settings a s = r" and "r = Inl (e, s') \<or> r = Inr (x, s')"
  shows "emitted_files (events s') = emitted_files (events s)
       \<and> invoked_teardowns (events s') = invoked_teardowns (events s)
       \<and> error s' = error s"
  using assms
  by (auto simp: acquireScreen_def Let_def dest!: registerOnended_frame
        split: sum.splits option.splits if_splits)

lemma acquireStandard_files:
  assumes "acquireStandard p settings s = r" and "r = Inl (e, s') \<or> r = Inr (x, s')"
  shows "emitted_files (events s') = emitted_files (events s)
       \<and> invoked_teardowns (events s') = invoked_teardowns (events s)
       \<and> error s' = error s"
proof (cases "acquireMicrophone p settings s")
  case (Inl a)
  with assms have "a = (e, s')" by (auto simp: acquireStandard_def)
  with Inl acquireMicrophone_files show ?thesis by blast
next
  case (Inr b)
  obtain audioStream s1 where b: "b = (audioStream, s1)" by (cases b)
  with Inr acquireMicrophone_files
  have s1: "emitted_files (events s1) = emitted_files (events s)
       \<and> invoked_teardowns (events s1) = invoked_teardowns (events s)
       \<and> error s1 = error s"
    by blast
  show ?thesis
  proof (cases "acquireScreen p settings audioStream s1")
    case (Inl a)
    with assms Inr b have "a = (e, s')" by (auto simp: acquireStandard_def)
    with Inl acquireScreen_files
    have "emitted_files (events s') = emitted_files (events s1)
       \<and> invoked_teardowns (events s') = invoked_teardowns (events s1)
       \<and> error s' = error s1"
      by blast
    with s1 show ?thesis by simp
  next
    case r2: (Inr c)
    obtain videoStream s2 where c: "c = (videoStream, s2)" by (cases c)
    with r2 acquireScreen_files
    have "emitted_files (events s2) = emitted_files (events s1)
       \<and> invoked_teardowns (events s2) = invoked_teardowns (events s1)
       \<and> error s2 = error s1"
      by blast
    moreover from assms Inr b r2 c have "s' = s2"
      by (auto simp: acquireStandard_def Let_def split: if_splits)
    ultimately show ?thesis using s1 by simp
  qed
qed

lemma acquireScreenAndCam_files:
  assumes "acquireScreenAndCam p settings s = r" and "r = Inl (e, s') \<or> r = Inr (x, s')"
  shows "emitted_files (events s') = emitted_files (events s)
       \<and> invoked_teardowns (events s') = invoked_teardowns (events s)
       \<and> error s' = error s"
  using acquireScreenAndCam_events [OF assms]
  by (simp split: sum.splits)

lemma tryStart_files:
  assumes "tryStart p now settings s = r" and "r = Inl (e, s') \<or> r = Inr s'"
  shows "emitted_files (events s') = emitted_files (events s)
       \<and> invoked_teardowns (events s') = invoked_teardowns (events s)
       \<and> error s' = error s"
proof -
  define acq where "acq = (if mode settings = ScreenAndCam then acquireScreenAndCam p settings s
            else acquireStandard p settings s)"
  have acq_files: "\<And>e x t. acq = Inl (e, t) \<or> acq = Inr (x, t)
      \<Longrightarrow> emitted_files (events t) = emitted_files (events s)
       \<and> invoked_teardowns (events t) = invoked_teardowns (events s)
       \<and> error t = error s"
    unfolding acq_def using acquireScreenAndCam_files acquireStandard_files
    by (metis (full_types))
  show ?thesis
  proof (cases acq)
    case (Inl a)
    with assms have "a = (e, s')" by (auto simp: tryStart_def acq_def)
    with Inl acq_files show ?thesis by blast
  next
    case (Inr b)
    obtain fs s1 where b: "b = (fs, s1)" by (cases b)
    with Inr acq_files
    have "emitted_files (events s1) = emitted_files (events s)
       \<and> invoked_teardowns (events s1) = invoked_teardowns (events s)
       \<and> error s1 = error s"
      by blast
    moreover from assms Inr b have "events s' = events s1 \<and> error s' = error s1"
      by (auto simp: tryStart_def acq_def [symmetric] Let_def startTimer_def split: sum.splits)
    ultimately show ?thesis by simp
  qed
qed

section \<open>Failure of acquisition\<close>

lemma beginAcquiring_fields [simp]:
  "events (beginAcquiring settings s) = events (cleanup s)"
  "error (beginAcquiring settings s) = None"
  "status (beginAcquiring settings s) = Acquiring"
  "captureModeRef (beginAcquiring settings s) = Some (mode settings)"
  by (simp_all add: beginAcquiring_def)

lemma catchStart_fields:
  "status (catchStart err s) = (if isPermissionError err then Idle else Error)"
  "error (catchStart err s) =
     (if isPermissionError err then error s
      else Some (''Failed to start recording: '' @ err_message err))"
  "events (catchStart err s) = events (cleanup s)"
  "no_session (catchStart err s)"
  by (simp_all add: catchStart_def Let_def no_session_def)

lemma tryStart_audio_only_denied:
  assumes "mode settings = AudioOnly" and "micMedia p = Inl e"
  shows "tryStart p now settings s = Inl (e, emit [ReqUserMedia False True] s)"
  using assms
  by (simp add: tryStart_def acquireStandard_def acquireMicrophone_def Let_def)

text \<open>
  Claim C4. When the \<open>try\<close> block of \<open>startRecording\<close> throws, a permission denial or
  cancellation (by error name or by message) returns the status to \<open>idle\<close> with no error
  message, any other error sets status \<open>error\<close> and the message
  \<open>Failed to start recording: ...\<close>; in both cases no file is emitted and cleanup has
  run on the state reached at the throw: every track of the stream held then is stopped,
  every teardown registered then is invoked, in this order, and no session resource is
  left. In audio-only mode a refused microphone is such a throw, with nothing acquired.
\<close>

theorem startRecording_error_handling:
  assumes "closureStatus \<noteq> Recording" and "closureStatus \<noteq> Acquiring"
  shows "(\<forall>err s'. tryStart p now settings (beginAcquiring settings s) = Inl (err, s') \<longrightarrow>
            status (startRecording p now closureStatus settings s)
              = (if isPermissionError err then Idle else Error)
          \<and> error (startRecording p now closureStatus settings s)
              = (if isPermissionError err then None
                 else Some (''Failed to start recording: '' @ err_message err))
          \<and> emitted_files (events (startRecording p now closureStatus settings s))
              = emitted_files (events s)
          \<and> no_session (startRecording p now closureStatus settings s)
          \<and> events (startRecording p now closureStatus settings s)
              = events s'
                  @ map TrackStopped (case streamRef s' of None \<Rightarrow> [] | Some st \<Rightarrow> st)
                  @ map TeardownInvoked (cleanupCallbacks s')
          \<and> stopped_tracks (events (startRecording p now closureStatus settings s))
              = stopped_tracks (events s')
                  @ (case streamRef s' of None \<Rightarrow> [] | Some st \<Rightarrow> st)
          \<and> invoked_teardowns (events (startRecording p now closureStatus settings s))
              = invoked_teardowns (events s) @ cleanupCallbacks s @ cleanupCallbacks s')
       \<and> (\<forall>e. mode settings = AudioOnly \<and> micMedia p = Inl e \<longrightarrow>
            status (startRecording p now closureStatus settings s)
              = (if isPermissionError e then Idle else Error)
          \<and> error (startRecording p now closureStatus settings s)
              = (if isPermissionError e then None
                 else Some (''Failed to start recording: '' @ err_message e))
          \<and> emitted_files (events (startRecording p now closureStatus settings s))
              = emitted_files (events s)
          \<and> events (startRecording p now closureStatus settings s)
              = events (cleanup s) @ [ReqUserMedia False True])"
proof -
  have thrown: "status (startRecording p now closureStatus settings s)
              = (if isPermissionError err then Idle else Error)
          \<and> error (startRecording p now closureStatus settings s)
              = (if isPermissionError err then None
                 else Some (''Failed to start recording: '' @ err_message err))
          \<and> emitted_files (events (startRecording p now closureStatus settings s))
              = emitted_files (events s)
          \<and> no_session (startRecording p now closureStatus settings s)
          \<and> events (startRecording p now closureStatus settings s)
              = events s'
                  @ map TrackStopped (case streamRef s' of None \<Rightarrow> [] | Some st \<Rightarrow> st)
                  @ map TeardownInvoked (cleanupCallbacks s')
          \<and> stopped_tracks (events (startRecording p now closureStatus settings s))
              = stopped_tracks (events s')
                  @ (case streamRef s' of None \<Rightarrow> [] | Some st \<Rightarrow> st)
          \<and> invoked_teardowns (events (startRecording p now closureStatus settings s))
              = invoked_teardowns (events s) @ cleanupCallbacks s @ cleanupCallbacks s'"
    if t: "tryStart p now settings (beginAcquiring settings s) = Inl (err, s')" for err s'
  proof -
    have r: "startRecording p now closureStatus settings s = catchStart err s'"
      using assms t by (simp add: startRecording_def)
    from tryStart_files [OF t]
    have f: "emitted_files (events s') = emitted_files (events (cleanup s))"
      and i: "invoked_teardowns (events s') = invoked_teardowns (events (cleanup s))"
      and e: "error s' = None"
      by simp_all
    have c: "events (catchStart err s')
               = events s' @ map TrackStopped (case streamRef s' of None \<Rightarrow> [] | Some st \<Rightarrow> st)
                   @ map TeardownInvoked (cleanupCallbacks s')"
      by (simp add: catchStart_fields events_cleanup)
    have k: "stopped_tracks (events (catchStart err s'))
               = stopped_tracks (events s') @ (case streamRef s' of None \<Rightarrow> [] | Some st \<Rightarrow> st)"
      by (simp add: c)
    have f': "emitted_files (events (catchStart err s')) = emitted_files (events s)"
      by (simp add: c f events_cleanup [of s])
    have i': "invoked_teardowns (events (catchStart err s'))
               = invoked_teardowns (events s) @ cleanupCallbacks s @ cleanupCallbacks s'"
      by (simp add: c i events_cleanup [of s])
    show ?thesis
      unfolding r using f' i' c k by (simp add: catchStart_fields e)
  qed
  have audio: "status (startRecording p now closureStatus settings s)
              = (if isPermissionError e then Idle else Error)
          \<and> error (startRecording p now closureStatus settings s)
              = (if isPermissionError e then None
                 else Some (''Failed to start recording: '' @ err_message e))
          \<and> emitted_files (events (startRecording p now closureStatus settings s))
              = emitted_files (events s)
          \<and> events (startRecording p now closureStatus settings s)
              = events (cleanup s) @ [ReqUserMedia False True]"
    if "mode settings = AudioOnly \<and> micMedia p = Inl e" for e
  proof -
    from that
    have t: "tryStart p now settings (beginAcquiring settings s)
               = Inl (e, emit [ReqUserMedia False True] (beginAcquiring settings s))"
      by (simp add: tryStart_audio_only_denied)
    have held: "streamRef (emit [ReqUserMedia False True] (beginAcquiring settings s)) = None"
      "cleanupCallbacks (emit [ReqUserMedia False True] (beginAcquiring settings s)) = []"
      "events (emit [ReqUserMedia False True] (beginAcquiring settings s))
         = events (cleanup s) @ [ReqUserMedia False True]"
      by (simp_all add: emit_def beginAcquiring_def)
    from thrown [OF t]
    have "events (startRecording p now closureStatus settings s)
            = events (emit [ReqUserMedia False True] (beginAcquiring settings s))
                @ map TrackStopped
                    (case streamRef (emit [ReqUserMedia False True] (beginAcquiring settings s)) of
                       None \<Rightarrow> [] | Some st \<Rightarrow> st)
                @ map TeardownInvoked
                    (cleanupCallbacks (emit [ReqUserMedia False True] (beginAcquiring settings s)))"
      by blast
    then have ev: "events (startRecording p now closureStatus settings s)
            = events (cleanup s) @ [ReqUserMedia False True]"
      by (simp add: held)
    from thrown [OF t] ev show ?thesis by blast
  qed
  from thrown audio show ?thesis by blast
qed

section \<open>Microphone requests\<close>

lemma acquireStandard_requests:
  assumes "\<not> includeMic settings" and "mode settings \<noteq> AudioOnly"
    and "acquireStandard p settings s = r" and "r = Inl (e, s') \<or> r = Inr (x, s')"
  shows "events s' = events s @ [ReqDisplayMedia (includeSystemAudio settings)]"
  using assms screen_modes [of "mode settings"]
  by (auto simp: acquireStandard_def acquireMicrophone_def acquireScreen_def Let_def emit_def
        dest!: registerOnended_frame split: sum.splits if_splits)

lemma acquireScreenAndCam_requests:
  assumes "\<not> includeMic settings"
    and "acquireScreenAndCam p settings s = r" and "r = Inl (e, s') \<or> r = Inr (x, s')"
  shows "filter is_mic_request (events s') = filter is_mic_request (events s)
       \<and> filter is_display_request (events s')
           = filter is_display_request (events s) @ [ReqDisplayMedia (includeSystemAudio settings)]"
  using acquireScreenAndCam_events [OF assms(2,3)] assms(1)
  by (simp split: sum.splits)

lemma tryStart_requests:
  assumes "\<not> includeMic settings" and "mode settings \<noteq> AudioOnly"
    and "tryStart p now settings s = r" and "r = Inl (e, s') \<or> r = Inr s'"
  shows "filter is_mic_request (events s') = filter is_mic_request (events s)
       \<and> filter is_display_request (events s')
           = filter is_display_request (events s) @ [ReqDisplayMedia (includeSystemAudio settings)]"
proof -
  define acq where "acq = (if mode settings = ScreenAndCam then acquireScreenAndCam p settings s
            else acquireStandard p settings s)"
  have acq_req: "filter is_mic_request (events t) = filter is_mic_request (events s)
       \<and> filter is_display_request (events t)
           = filter is_display_request (events s) @ [ReqDisplayMedia (includeSystemAudio settings)]"
    if "acq = Inl (e, t) \<or> acq = Inr (x, t)" for e x t
  proof (cases "mode settings = ScreenAndCam")
    case True
    with that have "acquireScreenAndCam p settings s = acq" by (simp add: acq_def)
    from acquireScreenAndCam_requests [OF assms(1) this that] show ?thesis .
  next
    case False
    with that have "acquireStandard p settings s = acq" by (simp add: acq_def)
    from acquireStandard_requests [OF assms(1,2) this that] show ?thesis by simp
  qed
  show ?thesis
  proof (cases acq)
    case (Inl a)
    with assms have "a = (e, s')" by (auto simp: tryStart_def acq_def)
    with Inl acq_req show ?thesis by blast
  next
    case (Inr b)
    obtain fs s1 where b: "b = (fs, s1)" by (cases b)
    with Inr acq_req
    have "filter is_mic_request (events s1) = filter is_mic_request (events s)
       \<and> filter is_display_request (events s1)
           = filter is_display_request (events s) @ [ReqDisplayMedia (includeSystemAudio settings)]"
      by blast
    moreover from assms Inr b have "events s' = events s1"
      by (auto simp: tryStart_def acq_def [symmetric] Let_def startTimer_def split: sum.splits)
    ultimately show ?thesis by simp
  qed
qed

lemma requests_cleanup [simp]:
  "filter is_mic_request (events (cleanup s)) = filter is_mic_request (events s)"
  "filter is_display_request (events (cleanup s)) = filter is_display_request (events s)"
  by (simp_all add: events_cleanup)

text \<open>
  Claim C9. With \<open>includeMic\<close> false and a mode other than audio-only, \<open>startRecording\<close> issues
  no microphone request, whatever \<open>includeSystemAudio\<close> is and whatever the platform answers;
  system audio travels only as the \<open>audio\<close> parameter of the one screen-capture request.
\<close>

theorem no_microphone_request_without_mic:
  assumes "\<not> includeMic settings" and "mode settings \<noteq> AudioOnly"
  shows "filter is_mic_request (events (startRecording p now closureStatus settings s))
           = filter is_mic_request (events s)
       \<and> (closureStatus \<noteq> Recording \<and> closureStatus \<noteq> Acquiring \<longrightarrow>
            filter is_display_request (events (startRecording p now closureStatus settings s))
              = filter is_display_request (events s)
                  @ [ReqDisplayMedia (includeSystemAudio settings)])"
proof (cases "closureStatus = Recording \<or> closureStatus = Acquiring")
  case True
  then show ?thesis by (auto simp: startRecording_def)
next
  case False
  show ?thesis
  proof (cases "tryStart p now settings (beginAcquiring settings s)")
    case (Inl a)
    obtain err s' where a: "a = (err, s')" by (cases a)
    from tryStart_requests [OF assms Inl, of err s'] a
    have "filter is_mic_request (events s') = filter is_mic_request (events s)
       \<and> filter is_display_request (events s')
           = filter is_display_request (events s) @ [ReqDisplayMedia (includeSystemAudio settings)]"
      by simp
    moreover have "startRecording p now closureStatus settings s = catchStart err s'"
      using False Inl a by (simp add: startRecording_def)
    ultimately show ?thesis by (simp add: catchStart_fields)
  next
    case (Inr s')
    from tryStart_requests [OF assms Inr, of undefined s']
    have "filter is_mic_request (events s') = filter is_mic_request (events s)
       \<and> filter is_display_request (events s')
           = filter is_display_request (events s) @ [ReqDisplayMedia (includeSystemAudio settings)]"
      by simp
    moreover have "startRecording p now closureStatus settings s = s'"
      using False Inr by (simp add: startRecording_def)
    ultimately show ?thesis by simp
  qed
qed

section \<open>Sessions on the concrete platform\<close>

lemmas start_defs =
  startRecording_def beginAcquiring_def tryStart_def acquireStandard_def acquireMicrophone_def
  acquireScreen_def acquireScreenAndCam_def registerOnended_def mixSessionAudio_def
  mixAudioTracks_def setupVideoComposition_def cleanup_def emit_def startTimer_def
  getSupportedMimeType_def find_or_empty_def isSupported_def video_candidates_def
  audio_candidates_def getVideoTracks_def getAudioTracks_def catchStart_def

lemmas input_defs =
  grantAll_def defaultSettings_def initial_def webmOnly_def screenTrack_def
  systemAudioTrack_def cameraTrack_def micTrack_def canvasTrack_def mixTrack_def
  oneChunk_def denied_def notFound_def notSupported_def

lemma started_screen_video:
  "startRecording (grantAll\<lparr>recorderStart := Inr m\<rparr>) 0 Idle defaultSettings initial =
     \<lparr>status = Recording, error = None, timer = 0,
      mediaRecorderRef = Some \<lparr>rec_stream = [screenTrack, systemAudioTrack, micTrack],
                               mimeType = m, rec_state = EncRecording\<rparr>,
      streamRef = Some [screenTrack, systemAudioTrack, micTrack],
      recordedChunksRef = [], timerIntervalRef = Some 1,
      captureModeRef = Some ScreenVideo, startTimeRef = 0,
      activeMimeTypeRef = ''video/webm'', cleanupCallbacks = [],
      onended = [screenTrack], nextIntervalId = 2,
      events = [ReqUserMedia False True, ReqDisplayMedia True]\<rparr>"
  by (simp add: start_defs input_defs)

lemma started_audio_only:
  "startRecording (grantAll\<lparr>recorderStart := Inr m\<rparr>) 0 Idle
      (defaultSettings\<lparr>mode := AudioOnly\<rparr>) initial =
     \<lparr>status = Recording, error = None, timer = 0,
      mediaRecorderRef = Some \<lparr>rec_stream = [micTrack],
                               mimeType = m, rec_state = EncRecording\<rparr>,
      streamRef = Some [micTrack],
      recordedChunksRef = [], timerIntervalRef = Some 1,
      captureModeRef = Some AudioOnly, startTimeRef = 0,
      activeMimeTypeRef = ''audio/webm'', cleanupCallbacks = [],
      onended = [], nextIntervalId = 2,
      events = [ReqUserMedia False True]\<rparr>"
  by (simp add: start_defs input_defs)

lemma started_screen_and_cam:
  "startRecording grantAll 0 Idle (defaultSettings\<lparr>mode := ScreenAndCam\<rparr>) initial =
     \<lparr>status = Recording, error = None, timer = 0,
      mediaRecorderRef = Some \<lparr>rec_stream = [canvasTrack, mixTrack],
                               mimeType = ''video/webm'', rec_state = EncRecording\<rparr>,
      streamRef = Some [canvasTrack, mixTrack],
      recordedChunksRef = [], timerIntervalRef = Some 1,
      captureModeRef = Some ScreenAndCam, startTimeRef = 0,
      activeMimeTypeRef = ''video/webm'',
      cleanupCallbacks = [VidCleanup [screenTrack, systemAudioTrack] [cameraTrack],
                          AudioCleanup [[screenTrack, systemAudioTrack], [micTrack]]],
      onended = [screenTrack], nextIntervalId = 2,
      events = [ReqDisplayMedia True, ReqUserMedia True False, ReqUserMedia False True]\<rparr>"
  by (simp add: start_defs input_defs)

lemma grantAll_webm: "grantAll\<lparr>recorderStart := Inr ''video/webm''\<rparr> = grantAll"
  by (simp add: grantAll_def)

lemmas control_defs =
  tick_def pauseRecording_def resumeRecording_def stopRecording_def stopTimer_def
  startTimer_def handleDataAvailable_def oneChunk_def

lemma int_string_7000: "int_string 7000 = ''7000''"
  by (simp add: int_string_def nat_string.simps digit_char_def)

text \<open>In general: a resume puts the time origin at the instant of the resume and leaves
  the timer as it was.\<close>

lemma resumeRecording_origin:
  "mediaRecorderRef s \<noteq> None \<Longrightarrow> status s = Paused \<Longrightarrow>
   startTimeRef (resumeRecording now s) = now \<and> timer (resumeRecording now s) = timer s"
  by (simp add: resumeRecording_def startTimer_def Let_def)

text \<open>
  Claim C6 (elapsed time is continuous across pause and resume), evaluated on the code:
  recording starts at 0 ms, the timer shows 5 at 5000 ms, the recording is paused and then
  resumed at 60000 ms. Right after the resume the timer still shows 5, but \<open>startTimer\<close> has
  overwritten the adjusted origin with the instant of the resume, so the tick one second
  later shows 1 where the claim requires 6.
\<close>

theorem timer_restarts_after_resume:
  "timer (tick 5000 (startRecording grantAll 0 Idle defaultSettings initial)) = 5
   \<and> timer (resumeRecording 60000 (pauseRecording
               (tick 5000 (startRecording grantAll 0 Idle defaultSettings initial)))) = 5
   \<and> startTimeRef (resumeRecording 60000 (pauseRecording
               (tick 5000 (startRecording grantAll 0 Idle defaultSettings initial)))) = 60000
   \<and> timer (tick 61000 (resumeRecording 60000 (pauseRecording
               (tick 5000 (startRecording grantAll 0 Idle defaultSettings initial))))) = 1"
  using started_screen_video [of "''video/webm''"]
  by (simp add: grantAll_webm control_defs)

text \<open>In general: the duration is measured from \<open>startTimeRef\<close> to the instant of the stop.\<close>

lemma handleStop_duration:
  "recordedChunksRef s \<noteq> [] \<Longrightarrow>
   map file_duration (emitted_files (events (handleStop now s)))
     = map file_duration (emitted_files (events s))
         @ [Some (real_of_int (now - startTimeRef s) / 1000)]"
  by (simp add: events_handleStop_files)

text \<open>
  Claim C7 (the duration of the file is the recorded time without the pauses), evaluated
  on the code. Recording 5 s, pausing 55 s, resuming and stopping 2 s later gives a duration
  of 2 s (7 s were recorded); recording 5 s, pausing and stopping 60 s later while paused
  gives 65 s (5 s were recorded).
\<close>

theorem duration_not_pause_adjusted:
  "map file_duration (emitted_files (events
      (handleStop 62000 (handleDataAvailable oneChunk (stopRecording
         (resumeRecording 60000 (pauseRecording
            (tick 5000 (startRecording grantAll 0 Idle defaultSettings initial))))))))) = [Some 2]
   \<and> map file_duration (emitted_files (events
      (handleStop 65000 (handleDataAvailable oneChunk (stopRecording
         (pauseRecording
            (tick 5000 (startRecording grantAll 0 Idle defaultSettings initial)))))))) = [Some 65]"
  using started_screen_video [of "''video/webm''"]
  by (simp add: grantAll_webm control_defs events_handleStop_files)

text \<open>The same session in screen-video mode stops the screen, system-audio and microphone
  tracks: there the final stream is made of the device tracks themselves.\<close>

lemma standard_session_stops_device_tracks:
  "stopped_tracks (events
      (handleStop 7000 (handleDataAvailable oneChunk (stopRecording
         (startRecording grantAll 0 Idle defaultSettings initial)))))
     = [screenTrack, systemAudioTrack, micTrack]"
  using started_screen_video [of "''video/webm''"]
  by (simp add: grantAll_webm control_defs handleStop_def Let_def events_cleanup emit_def)

text \<open>
  Claim C2 (every acquired device track is stopped when a session ends), evaluated on the
  code: a screen-and-cam session with screen, system audio, camera and microphone granted,
  stopped after one chunk. Both teardown callbacks are invoked once and no session resource
  is left, but the only tracks stopped are the canvas track and the mixed audio track: the
  screen, system-audio, camera and microphone tracks are never stopped.
\<close>

theorem screen_and_cam_device_tracks_left_live:
  "stopped_tracks (events
      (handleStop 7000 (handleDataAvailable oneChunk (stopRecording
         (startRecording grantAll 0 Idle (defaultSettings\<lparr>mode := ScreenAndCam\<rparr>) initial)))))
     = [canvasTrack, mixTrack]
   \<and> invoked_teardowns (events
      (handleStop 7000 (handleDataAvailable oneChunk (stopRecording
         (startRecording grantAll 0 Idle (defaultSettings\<lparr>mode := ScreenAndCam\<rparr>) initial)))))
     = [VidCleanup [screenTrack, systemAudioTrack] [cameraTrack],
        AudioCleanup [[screenTrack, systemAudioTrack], [micTrack]]]
   \<and> no_session
      (handleStop 7000 (handleDataAvailable oneChunk (stopRecording
         (startRecording grantAll 0 Idle (defaultSettings\<lparr>mode := ScreenAndCam\<rparr>) initial))))
   \<and> screenTrack \<notin> set [canvasTrack, mixTrack]
   \<and> systemAudioTrack \<notin> set [canvasTrack, mixTrack]
   \<and> cameraTrack \<notin> set [canvasTrack, mixTrack]
   \<and> micTrack \<notin> set [canvasTrack, mixTrack]"
  using started_screen_and_cam
  by (simp add: control_defs handleStop_def Let_def events_cleanup emit_def no_session_def
        screenTrack_def systemAudioTrack_def cameraTrack_def micTrack_def canvasTrack_def
        mixTrack_def)

lemma isPermissionError_denied: "isPermissionError denied"
  by (simp add: isPermissionError_def denied_def)

lemma isPermissionError_notFound: "\<not> isPermissionError notFound"
  by (simp add: isPermissionError_def notFound_def toLowerCase_def lower_char_def)

lemma isPermissionError_message:
  "isPermissionError \<lparr>err_name = ''AbortError'', err_message = ''The user CANCELLED the prompt''\<rparr>"
  by (simp add: isPermissionError_def toLowerCase_def lower_char_def)

lemma isPermissionError_notSupported: "\<not> isPermissionError notSupported"
  by (simp add: isPermissionError_def notSupported_def toLowerCase_def lower_char_def)

lemma encoder_start_failure:
  "tryStart (grantAll\<lparr>recorderStart := Inl notSupported\<rparr>) 0 defaultSettings
     (beginAcquiring defaultSettings initial) =
   Inl (notSupported,
     \<lparr>status = Acquiring, error = None, timer = 0, mediaRecorderRef = None,
      streamRef = Some [screenTrack, systemAudioTrack, micTrack],
      recordedChunksRef = [], timerIntervalRef = None,
      captureModeRef = Some ScreenVideo, startTimeRef = 0,
      activeMimeTypeRef = ''video/webm'', cleanupCallbacks = [],
      onended = [screenTrack], nextIntervalId = 1,
      events = [ReqUserMedia False True, ReqDisplayMedia True]\<rparr>)"
  by (simp add: start_defs input_defs)

theorem startRecording_error_handling_witness:
  "status (startRecording (grantAll\<lparr>micMedia := Inl denied\<rparr>) 0 Idle
             (defaultSettings\<lparr>mode := AudioOnly\<rparr>) initial) = Idle
   \<and> error (startRecording (grantAll\<lparr>micMedia := Inl denied\<rparr>) 0 Idle
             (defaultSettings\<lparr>mode := AudioOnly\<rparr>) initial) = None
   \<and> status (startRecording (grantAll\<lparr>micMedia := Inl notFound\<rparr>) 0 Idle
             (defaultSettings\<lparr>mode := AudioOnly\<rparr>) initial) = Error
   \<and> error (startRecording (grantAll\<lparr>micMedia := Inl notFound\<rparr>) 0 Idle
             (defaultSettings\<lparr>mode := AudioOnly\<rparr>) initial)
       = Some ''Failed to start recording: Requested device not found''
   \<and> events (startRecording (grantAll\<lparr>micMedia := Inl notFound\<rparr>) 0 Idle
             (defaultSettings\<lparr>mode := AudioOnly\<rparr>) initial) = [ReqUserMedia False True]
   \<and> status (startRecording (grantAll\<lparr>recorderStart := Inl notSupported\<rparr>) 0 Idle
             defaultSettings initial) = Error
   \<and> events (startRecording (grantAll\<lparr>recorderStart := Inl notSupported\<rparr>) 0 Idle
             defaultSettings initial)
       = [ReqUserMedia False True, ReqDisplayMedia True,
          TrackStopped screenTrack, TrackStopped systemAudioTrack, TrackStopped micTrack]
   \<and> stopped_tracks (events (startRecording (grantAll\<lparr>recorderStart := Inl notSupported\<rparr>)
             0 Idle defaultSettings initial))
       = [screenTrack, systemAudioTrack, micTrack]"
proof -
  have st: "Idle \<noteq> Recording" "Idle \<noteq> Acquiring"
    by simp_all
  have m: "mode (defaultSettings\<lparr>mode := AudioOnly\<rparr>) = AudioOnly" by simp
  have d: "micMedia (grantAll\<lparr>micMedia := Inl denied\<rparr>) = Inl denied" by simp
  have n: "micMedia (grantAll\<lparr>micMedia := Inl notFound\<rparr>) = Inl notFound" by simp
  have ci: "events (cleanup initial) = []"
    by (simp add: events_cleanup initial_def)
  from startRecording_error_handling
         [OF st, where p = "grantAll\<lparr>micMedia := Inl denied\<rparr>" and now = 0
            and settings = "defaultSettings\<lparr>mode := AudioOnly\<rparr>" and s = initial]
       m d isPermissionError_denied
  have a: "status (startRecording (grantAll\<lparr>micMedia := Inl denied\<rparr>) 0 Idle
             (defaultSettings\<lparr>mode := AudioOnly\<rparr>) initial) = Idle
     \<and> error (startRecording (grantAll\<lparr>micMedia := Inl denied\<rparr>) 0 Idle
             (defaultSettings\<lparr>mode := AudioOnly\<rparr>) initial) = None"
    by simp
  from startRecording_error_handling
         [OF st, where p = "grantAll\<lparr>micMedia := Inl notFound\<rparr>" and now = 0
            and settings = "defaultSettings\<lparr>mode := AudioOnly\<rparr>" and s = initial]
       m n isPermissionError_notFound
  have b: "status (startRecording (grantAll\<lparr>micMedia := Inl notFound\<rparr>) 0 Idle
             (defaultSettings\<lparr>mode := AudioOnly\<rparr>) initial) = Error
     \<and> error (startRecording (grantAll\<lparr>micMedia := Inl notFound\<rparr>) 0 Idle
             (defaultSettings\<lparr>mode := AudioOnly\<rparr>) initial)
         = Some (''Failed to start recording: '' @ err_message notFound)
     \<and> events (startRecording (grantAll\<lparr>micMedia := Inl notFound\<rparr>) 0 Idle
             (defaultSettings\<lparr>mode := AudioOnly\<rparr>) initial)
         = events (cleanup initial) @ [ReqUserMedia False True]"
    by simp
  from startRecording_error_handling
         [OF st, where p = "grantAll\<lparr>recorderStart := Inl notSupported\<rparr>" and now = 0
            and settings = defaultSettings and s = initial,
          THEN conjunct1, THEN spec, THEN spec, THEN mp, OF encoder_start_failure]
       isPermissionError_notSupported
  have c: "status (startRecording (grantAll\<lparr>recorderStart := Inl notSupported\<rparr>) 0 Idle
             defaultSettings initial) = Error
     \<and> events (startRecording (grantAll\<lparr>recorderStart := Inl notSupported\<rparr>) 0 Idle
             defaultSettings initial)
       = [ReqUserMedia False True, ReqDisplayMedia True,
          TrackStopped screenTrack, TrackStopped systemAudioTrack, TrackStopped micTrack]
     \<and> stopped_tracks (events (startRecording (grantAll\<lparr>recorderStart := Inl notSupported\<rparr>)
             0 Idle defaultSettings initial))
       = [screenTrack, systemAudioTrack, micTrack]"
    by simp
  from a b c show ?thesis by (simp add: notFound_def ci)
qed

theorem no_microphone_request_without_mic_witness:
  "filter is_mic_request (events (startRecording grantAll 0 Idle
       (defaultSettings\<lparr>includeMic := False\<rparr>) initial)) = []
   \<and> filter is_display_request (events (startRecording grantAll 0 Idle
       (defaultSettings\<lparr>includeMic := False\<rparr>) initial)) = [ReqDisplayMedia True]"
proof -
  have h: "\<not> includeMic (defaultSettings\<lparr>includeMic := False\<rparr>)"
    "mode (defaultSettings\<lparr>includeMic := False\<rparr>) \<noteq> AudioOnly"
    by (simp_all add: defaultSettings_def)
  from no_microphone_request_without_mic [OF h, of grantAll 0 Idle initial]
  show ?thesis by (simp add: initial_def defaultSettings_def)
qed

theorem handleStop_format_witness:
  "map file_name (emitted_files (events (handleStop 7000 (handleDataAvailable oneChunk
       (startRecording (grantAll\<lparr>recorderStart := Inr ''video/mp4''\<rparr>) 0 Idle defaultSettings
          initial))))) = [''recording-7000.mp4'']
   \<and> map (\<lambda>f. blob_type (file_blob f)) (emitted_files (events (handleStop 7000
       (handleDataAvailable oneChunk
       (startRecording (grantAll\<lparr>recorderStart := Inr ''video/mp4''\<rparr>) 0 Idle defaultSettings
          initial))))) = [''video/mp4'']
   \<and> activeMimeTypeRef (handleDataAvailable oneChunk
       (startRecording (grantAll\<lparr>recorderStart := Inr ''video/mp4''\<rparr>) 0 Idle defaultSettings
          initial)) = ''video/webm''
   \<and> map file_name (emitted_files (events (handleStop 7000 (handleDataAvailable oneChunk
       (startRecording (grantAll\<lparr>recorderStart := Inr ''video/mp4''\<rparr>) 0 Idle
          (defaultSettings\<lparr>mode := AudioOnly\<rparr>) initial))))) = [''recording-7000.m4a'']
   \<and> map (\<lambda>f. blob_type (file_blob f)) (emitted_files (events (handleStop 7000
       (handleDataAvailable oneChunk
       (startRecording (grantAll\<lparr>recorderStart := Inr ''video/mp4''\<rparr>) 0 Idle
          (defaultSettings\<lparr>mode := AudioOnly\<rparr>) initial))))) = [''audio/mp4'']"
proof -
  define s where "s = handleDataAvailable oneChunk
       (startRecording (grantAll\<lparr>recorderStart := Inr ''video/mp4''\<rparr>) 0 Idle defaultSettings initial)"
  define a where "a = handleDataAvailable oneChunk
       (startRecording (grantAll\<lparr>recorderStart := Inr ''video/mp4''\<rparr>) 0 Idle
          (defaultSettings\<lparr>mode := AudioOnly\<rparr>) initial)"
  have s: "mediaRecorderRef s = Some \<lparr>rec_stream = [screenTrack, systemAudioTrack, micTrack],
                               mimeType = ''video/mp4'', rec_state = EncRecording\<rparr>"
    "recordedChunksRef s = [oneChunk]" "captureModeRef s = Some ScreenVideo"
    "activeMimeTypeRef s = ''video/webm''"
    "events s = [ReqUserMedia False True, ReqDisplayMedia True]"
    unfolding s_def started_screen_video by (simp_all add: handleDataAvailable_def oneChunk_def)
  have a: "mediaRecorderRef a = Some \<lparr>rec_stream = [micTrack],
                               mimeType = ''video/mp4'', rec_state = EncRecording\<rparr>"
    "recordedChunksRef a = [oneChunk]" "captureModeRef a = Some AudioOnly"
    "events a = [ReqUserMedia False True]"
    unfolding a_def started_audio_only by (simp_all add: handleDataAvailable_def oneChunk_def)
  have s1: "recordedChunksRef s \<noteq> []" by (simp add: s)
  have s2: "''video/mp4'' = (case mediaRecorderRef s of None \<Rightarrow> '''' | Some r \<Rightarrow> mimeType r)"
    by (simp add: s)
  have s3: "''video/mp4'' = (if ''video/mp4'' \<noteq> '''' then ''video/mp4''
                       else if activeMimeTypeRef s \<noteq> '''' then activeMimeTypeRef s
                       else if captureModeRef s = Some AudioOnly then ''audio/webm''
                       else ''video/webm'')"
    by simp
  have s4: "''video/mp4'' = (if captureModeRef s = Some AudioOnly \<and> str_includes ''video/mp4'' ''video''
                     then str_replace ''video/mp4'' ''video'' ''audio'' else ''video/mp4'')"
    by (simp add: s)
  from handleStop_format [OF s1 s2 s3 s4, of 7000 "''video/webm''"]
  obtain f ext where
    files: "emitted_files (events (handleStop 7000 s)) = emitted_files (events s) @ [f]"
    and bt: "blob_type (file_blob f) = ''video/mp4''"
    and nm: "file_name f = ''recording-'' @ int_string 7000 @ ''.'' @ ext"
    and ex: "str_includes ''video/mp4'' ''mp4'' \<longrightarrow>
              ext = (if captureModeRef s = Some AudioOnly then ''m4a'' else ''mp4'')"
    by blast
  from ex have "ext = ''mp4''" by (simp add: s)
  with nm have "file_name f = ''recording-7000.mp4''" by (simp add: int_string_7000)
  with files bt have video:
    "map file_name (emitted_files (events (handleStop 7000 s))) = [''recording-7000.mp4'']
     \<and> map (\<lambda>f. blob_type (file_blob f)) (emitted_files (events (handleStop 7000 s)))
         = [''video/mp4'']"
    by (simp add: s)
  have a1: "recordedChunksRef a \<noteq> []" by (simp add: a)
  have a2: "''video/mp4'' = (case mediaRecorderRef a of None \<Rightarrow> '''' | Some r \<Rightarrow> mimeType r)"
    by (simp add: a)
  have a3: "''video/mp4'' = (if ''video/mp4'' \<noteq> '''' then ''video/mp4''
                       else if activeMimeTypeRef a \<noteq> '''' then activeMimeTypeRef a
                       else if captureModeRef a = Some AudioOnly then ''audio/webm''
                       else ''video/webm'')"
    by simp
  have a4: "''audio/mp4'' = (if captureModeRef a = Some AudioOnly \<and> str_includes ''video/mp4'' ''video''
                     then str_replace ''video/mp4'' ''video'' ''audio'' else ''video/mp4'')"
    by (simp add: a)
  from handleStop_format [OF a1 a2 a3 a4, of 7000 "''audio/webm''"]
  obtain g ext' where
    files': "emitted_files (events (handleStop 7000 a)) = emitted_files (events a) @ [g]"
    and bt': "blob_type (file_blob g) = ''audio/mp4''"
    and nm': "file_name g = ''recording-'' @ int_string 7000 @ ''.'' @ ext'"
    and ex': "str_includes ''audio/mp4'' ''mp4'' \<longrightarrow>
              ext' = (if captureModeRef a = Some AudioOnly then ''m4a'' else ''mp4'')"
    by blast
  from ex' have "ext' = ''m4a''" by (simp add: a)
  with nm' have "file_name g = ''recording-7000.m4a''" by (simp add: int_string_7000)
  with files' bt' have audio:
    "map file_name (emitted_files (events (handleStop 7000 a))) = [''recording-7000.m4a'']
     \<and> map (\<lambda>f. blob_type (file_blob f)) (emitted_files (events (handleStop 7000 a)))
         = [''audio/mp4'']"
    by (simp add: a)
  from video audio s(4) show ?thesis
    unfolding s_def a_def by simp
qed


text \<open>
  Claim C3 as stated (the requested format never overrides a differing format of the
  encoder) fails when \<open>onstop\<close> arrives after the encoder reference has been dropped:
  requested \<open>video/webm\<close>, the encoder settles on \<open>video/mp4\<close>, \<open>stopRecording\<close> is called
  twice (the second call finds the encoder inactive and the status still \<open>recording\<close>, and
  takes the fallback \<open>cleanup\<close>), then the last chunk and \<open>onstop\<close> arrive. The file is
  labelled with the requested format.
\<close>

theorem handleStop_late_onstop_counterexample:
  "map_option mimeType (mediaRecorderRef
       (startRecording (grantAll\<lparr>recorderStart := Inr ''video/mp4''\<rparr>) 0 Idle defaultSettings
          initial)) = Some ''video/mp4''
   \<and> map file_name (emitted_files (events (handleStop 7000 (handleDataAvailable oneChunk
       (stopRecording (stopRecording
         (startRecording (grantAll\<lparr>recorderStart := Inr ''video/mp4''\<rparr>) 0 Idle defaultSettings
            initial))))))) = [''recording-7000.webm'']
   \<and> map (\<lambda>f. blob_type (file_blob f)) (emitted_files (events (handleStop 7000
       (handleDataAvailable oneChunk
       (stopRecording (stopRecording
         (startRecording (grantAll\<lparr>recorderStart := Inr ''video/mp4''\<rparr>) 0 Idle defaultSettings
            initial))))))) = [''video/webm'']"
  unfolding started_screen_video
  by (simp add: control_defs cleanup_def emit_def events_handleStop_files resolveMimeType_def
        fileExtension_def int_string_7000)

end
